theory Spec2Isabelle
  imports Complex_Main
begin

section \<open>Python values used by the layer\<close>

text \<open>
  The layer of \<^verbatim>\<open>torch/legacy/nn/BatchNormalization.py\<close> is a Python object: its
  methods read and assign attributes, raise exceptions and call into the tensor library.
  Exceptions are values of \<open>error\<close>; a method that can raise returns its outcome together
  with the object as the method left it, so that what was assigned before a raise stays
  visible.
\<close>

datatype error =
    AssertionError
  | RuntimeError string
  | AttributeError string
  | NameError string
  | IndexError
  | TypeError

text \<open>
  An attribute of an object is either missing (\<open>NoAttr\<close>: reading it raises
  \<^verbatim>\<open>AttributeError\<close>, \<^verbatim>\<open>hasattr\<close> is false) or holds a value. A value that may
  be Python's \<^verbatim>\<open>None\<close> is an \<open>option\<close>.
\<close>

datatype 'a attr = NoAttr | Attr 'a

definition hasattr :: "'a attr \<Rightarrow> bool" where
  "hasattr a = (case a of NoAttr \<Rightarrow> False | Attr v \<Rightarrow> True)"

definition getattr :: "string \<Rightarrow> 'a attr \<Rightarrow> error + 'a" where
  "getattr name a = (case a of NoAttr \<Rightarrow> Inl (AttributeError name) | Attr v \<Rightarrow> Inr v)"

text \<open>\<^verbatim>\<open>str(n)\<close> for a non-negative integer: its decimal digits.\<close>

definition digit_char :: "nat \<Rightarrow> char" where
  "digit_char d = ''0123456789'' ! (d mod 10)"

fun str_nat :: "nat \<Rightarrow> string" where
  "str_nat n = (if n < 10 then [digit_char n] else str_nat (n div 10) @ [digit_char n])"

declare str_nat.simps [simp del]

text \<open>
  \<^verbatim>\<open>template.format(*args)\<close> for the templates of this file: every \<^verbatim>\<open>{}\<close> is
  replaced by the next argument (\<^verbatim>\<open>IndexError\<close> when none is left), every other
  character is copied, a \<^verbatim>\<open>%d\<close> included, and arguments left over are ignored.
  (Numbered or named fields and doubled braces do not occur in the file.)
\<close>

fun format :: "string \<Rightarrow> string list \<Rightarrow> error + string" where
  "format [] args = Inr []"
| "format [c] args = Inr [c]"
| "format (c # d # s) args =
     (if c = CHR ''{'' \<and> d = CHR ''}'' then
        (case args of
           [] \<Rightarrow> Inl IndexError
         | a # rest \<Rightarrow> (case format s rest of Inl e \<Rightarrow> Inl e | Inr t \<Rightarrow> Inr (a @ t)))
      else (case format (d # s) args of Inl e \<Rightarrow> Inl e | Inr t \<Rightarrow> Inr (c # t)))"

section \<open>The tensor library\<close>

text \<open>
  Modelled from the spec: the tensor class (\<^verbatim>\<open>torch.Tensor\<close>) is not under src/. The
  spec takes it as a library of shape- and stride-aware buffers with allocation and
  element-wise arithmetic, computing in exact arithmetic, with no failure mode of its
  own. A tensor is its shape, its elements in row-major order and whether its memory
  layout is contiguous; elements are reals.
\<close>

record tensor =
  sizes :: "nat list"
  elems :: "real list"
  contiguous :: bool

text \<open>Modelled from the spec: \<^verbatim>\<open>t.dim()\<close> (not under src/), the rank of t.\<close>

definition dim_t :: "tensor \<Rightarrow> nat" where
  "dim_t t = length (sizes t)"

text \<open>
  Modelled from the spec: \<^verbatim>\<open>t.size(d)\<close> (not under src/), the extent of dimension d,
  counted from 0. The file calls it only after checking the rank.
\<close>

definition size_t :: "tensor \<Rightarrow> nat \<Rightarrow> nat" where
  "size_t t d = (if d < length (sizes t) then sizes t ! d else 0)"

text \<open>
  Modelled from the spec: \<^verbatim>\<open>t.nElement()\<close> (not under src/), the number of elements;
  a tensor without dimensions is empty.
\<close>

definition nElement :: "tensor \<Rightarrow> nat" where
  "nElement t = (if sizes t = [] then 0 else prod_list (sizes t))"

text \<open>Modelled from the spec: \<^verbatim>\<open>t.isContiguous()\<close> (not under src/).\<close>

definition isContiguous :: "tensor \<Rightarrow> bool" where
  "isContiguous t = contiguous t"

text \<open>
  Modelled from the spec: \<^verbatim>\<open>t.new()\<close> (not under src/), a fresh empty tensor of the
  same element type.
\<close>

definition new_t :: "tensor \<Rightarrow> tensor" where
  "new_t t = \<lparr>sizes = [], elems = [], contiguous = True\<rparr>"

text \<open>
  Modelled from the spec: \<^verbatim>\<open>t.resizeAs(src)\<close> (not under src/) gives t the shape of
  src, in place, with a contiguous layout. The elements t held are kept as far as they
  fit; what the library leaves uninitialised is read as 0 here, and every use in the file
  overwrites it.
\<close>

definition resizeAs :: "tensor \<Rightarrow> tensor \<Rightarrow> tensor" where
  "resizeAs t src =
     \<lparr>sizes = sizes src,
      elems = take (nElement src) (elems t @ replicate (nElement src) 0),
      contiguous = True\<rparr>"

text \<open>
  Modelled from the spec: \<^verbatim>\<open>t.copy(src)\<close> (not under src/) overwrites the elements of
  t with those of src; the file calls it on a tensor just resized as src.
\<close>

definition copy_t :: "tensor \<Rightarrow> tensor \<Rightarrow> tensor" where
  "copy_t t src = t\<lparr>elems := elems src\<rparr>"

text \<open>
  Modelled from the spec: \<^verbatim>\<open>t.zero()\<close> and \<^verbatim>\<open>t.fill(v)\<close> (not under src/) set every
  element to 0 and to v.
\<close>

definition zero_t :: "tensor \<Rightarrow> tensor" where
  "zero_t t = t\<lparr>elems := map (\<lambda>x. 0) (elems t)\<rparr>"

definition fill :: "tensor \<Rightarrow> real \<Rightarrow> tensor" where
  "fill t v = t\<lparr>elems := map (\<lambda>x. v) (elems t)\<rparr>"

text \<open>
  Modelled from the spec: \<^verbatim>\<open>t.uniform()\<close> (not under src/) overwrites every element
  with a draw from a uniform distribution. The draws come from the library's random
  number generator: \<open>draw i\<close> is the i-th number it hands out.
\<close>

definition uniform :: "(nat \<Rightarrow> real) \<Rightarrow> tensor \<Rightarrow> tensor" where
  "uniform draw t = t\<lparr>elems := map draw [0..<length (elems t)]\<rparr>"

text \<open>
  Modelled from the spec: \<^verbatim>\<open>t.pow(k)\<close> (not under src/) is a new tensor of the k-th
  powers, and \<^verbatim>\<open>t.add(v)\<close> adds v to every element in place. In exact arithmetic the
  power of 0 with a negative exponent is 0 here, where floating point gives infinity.
\<close>

definition pow_t :: "tensor \<Rightarrow> int \<Rightarrow> tensor" where
  "pow_t t k = \<lparr>sizes = sizes t, elems = map (\<lambda>x. x powi k) (elems t), contiguous = True\<rparr>"

definition add_t :: "tensor \<Rightarrow> real \<Rightarrow> tensor" where
  "add_t t v = t\<lparr>elems := map (\<lambda>x. x + v) (elems t)\<rparr>"

text \<open>
  Modelled from the spec: \<^verbatim>\<open>torch.zeros(n)\<close>, \<^verbatim>\<open>torch.ones(n)\<close> and
  \<^verbatim>\<open>torch.Tensor(n)\<close> (not under src/) allocate a one-dimensional tensor of the
  requested size n. For a positive n that is a tensor of n elements, all 0, all 1, or,
  for \<^verbatim>\<open>torch.Tensor(n)\<close>, whatever the memory held (\<open>mem\<close>). What an allocator does
  with a size that is not positive, raise or hand back some tensor, is said neither by
  the source nor by the spec: it is the parameter \<open>np\<close>, a function of the allocator and
  the size.
\<close>

datatype allocator = Zeros | Ones | Uninitialised

type_synonym nonpositive_sizes = "allocator \<Rightarrow> int \<Rightarrow> error + tensor"

definition alloc :: "(int \<Rightarrow> error + tensor) \<Rightarrow> int \<Rightarrow> (nat \<Rightarrow> real) \<Rightarrow> error + tensor" where
  "alloc refused n f =
     (if 0 < n then Inr \<lparr>sizes = [nat n], elems = map f [0..<nat n], contiguous = True\<rparr>
      else refused n)"

definition zeros :: "nonpositive_sizes \<Rightarrow> int \<Rightarrow> error + tensor" where
  "zeros np n = alloc (np Zeros) n (\<lambda>i. 0)"

definition ones :: "nonpositive_sizes \<Rightarrow> int \<Rightarrow> error + tensor" where
  "ones np n = alloc (np Ones) n (\<lambda>i. 1)"

definition Tensor :: "nonpositive_sizes \<Rightarrow> (nat \<Rightarrow> real) \<Rightarrow> int \<Rightarrow> error + tensor" where
  "Tensor np mem n = alloc (np Uninitialised) n mem"

text \<open>
  Modelled from the spec: the truth value of a tensor object (not under src/). The spec
  reads \<^verbatim>\<open>if self.weight\<close> as "if affine", so a tensor object counts as true and
  \<^verbatim>\<open>None\<close> as false; a test \<^verbatim>\<open>if x:\<close> is a case distinction on the option, and
  \<open>or_else x y\<close> is \<^verbatim>\<open>x or y\<close>.
\<close>

definition or_else :: "tensor option \<Rightarrow> tensor \<Rightarrow> tensor" where
  "or_else x y = (case x of None \<Rightarrow> y | Some t \<Rightarrow> t)"

section \<open>The numeric backend\<close>

text \<open>
  \<^verbatim>\<open>self._backend\<close> holds the compiled kernels, which are not under src/. They are
  parameters of the model: a kernel is a function of the arguments the file passes, in
  the file's order, and returns the new contents of the buffers it writes in place.

  \<^item> \<^verbatim>\<open>BatchNormalization_updateOutput\<close> writes output, running_mean, running_var,
    save_mean and save_std (in this order in the result).
  \<^item> \<^verbatim>\<open>BatchNormalization_backward\<close> writes gradInput, gradWeight and gradBias; a
    buffer passed as \<^verbatim>\<open>None\<close> is not written, and its component of the result is
    ignored.
\<close>

type_synonym updateOutput_kernel =
  "nat \<Rightarrow> tensor \<Rightarrow> tensor \<Rightarrow> tensor option \<Rightarrow> tensor option \<Rightarrow> tensor \<Rightarrow> tensor
     \<Rightarrow> tensor \<Rightarrow> tensor \<Rightarrow> bool \<Rightarrow> real \<Rightarrow> real
     \<Rightarrow> tensor \<times> tensor \<times> tensor \<times> tensor \<times> tensor"

type_synonym backward_kernel =
  "nat \<Rightarrow> tensor \<Rightarrow> tensor \<Rightarrow> tensor option \<Rightarrow> tensor option \<Rightarrow> tensor option
     \<Rightarrow> tensor option \<Rightarrow> tensor \<Rightarrow> tensor \<Rightarrow> tensor option \<Rightarrow> tensor option
     \<Rightarrow> bool \<Rightarrow> real \<Rightarrow> real
     \<Rightarrow> tensor \<times> tensor \<times> tensor"

record THNN =
  library_state :: nat
  BatchNormalization_updateOutput :: updateOutput_kernel
  BatchNormalization_backward :: backward_kernel

section \<open>The layer object\<close>

text \<open>
  The attributes of a \<^verbatim>\<open>BatchNormalization\<close> object. \<open>output\<close>, \<open>gradInput\<close> and
  \<open>p_backend\<close> belong to the base class \<^verbatim>\<open>nn.Module\<close>. A name that starts with an
  underscore in the source starts with \<open>p_\<close> here (\<open>p_input\<close> is \<^verbatim>\<open>_input\<close>). The
  attributes the constructor of this file does not assign (\<^verbatim>\<open>_input\<close>,
  \<^verbatim>\<open>_gradOutput\<close>, \<^verbatim>\<open>running_std\<close> and the five buffers of old saved models) and the
  two that \<^verbatim>\<open>_backward\<close> tests with \<^verbatim>\<open>hasattr\<close> may be missing.
\<close>

record Module =
  "output" :: tensor
  gradInput :: tensor
  p_backend :: THNN

record BatchNormalization = Module +
  affine :: bool
  eps :: real
  train :: bool
  momentum :: real
  running_mean :: tensor
  running_var :: tensor
  save_mean :: "tensor option attr"
  save_std :: "tensor option attr"
  weight :: "tensor option"
  bias :: "tensor option"
  gradWeight :: "tensor option"
  gradBias :: "tensor option"
  p_input :: "tensor option attr"
  p_gradOutput :: "tensor option attr"
  running_std :: "tensor option attr"
  buffer :: "tensor option attr"
  buffer2 :: "tensor option attr"
  centered :: "tensor option attr"
  std :: "tensor option attr"
  normalized :: "tensor option attr"

section \<open>The methods\<close>

text \<open>
  \<^verbatim>\<open>reset\<close>. \<open>draw\<close> is the random number generator behind \<^verbatim>\<open>uniform()\<close>.
\<close>

definition reset :: "(nat \<Rightarrow> real) \<Rightarrow> BatchNormalization \<Rightarrow> BatchNormalization" where
  "reset draw self =
     (let self1 = (case weight self of
                     None \<Rightarrow> self
                   | Some w \<Rightarrow> self\<lparr>weight := Some (uniform draw w)\<rparr>);
          self2 = (case bias self1 of
                     None \<Rightarrow> self1
                   | Some b \<Rightarrow> self1\<lparr>bias := Some (zero_t b)\<rparr>);
          self3 = self2\<lparr>running_mean := zero_t (running_mean self2)\<rparr>
      in self3\<lparr>running_var := fill (running_var self3) 1\<rparr>)"

text \<open>
  \<^verbatim>\<open>__init__\<close>. \<open>m\<close> is the object as \<^verbatim>\<open>nn.Module.__init__\<close> (not under src/) left
  it; \<open>mem k\<close> is the memory behind the k-th uninitialised allocation; \<open>np\<close> is what
  the allocators do with a size that is not positive. The assertion is the constructor's
  only check of the feature count; an allocation that raises ends the construction.
\<close>

definition init ::
  "nonpositive_sizes \<Rightarrow> BatchNormalization \<Rightarrow> (nat \<Rightarrow> real) \<Rightarrow> (nat \<Rightarrow> nat \<Rightarrow> real)
     \<Rightarrow> int \<Rightarrow> real \<Rightarrow> real \<Rightarrow> bool \<Rightarrow> error + BatchNormalization" where
  "init np m draw mem nOutput eps' momentum' affine' =
     (if nOutput \<noteq> 0 then
        (case zeros np nOutput of
           Inl e \<Rightarrow> Inl e
         | Inr rm \<Rightarrow>
        (case ones np nOutput of
           Inl e \<Rightarrow> Inl e
         | Inr rv \<Rightarrow>
        (let self = m\<lparr>affine := affine', eps := eps', train := True, momentum := momentum',
                      running_mean := rm, running_var := rv,
                      save_mean := Attr None, save_std := Attr None\<rparr>
         in if affine self then
              (case Tensor np (mem 0) nOutput of
                 Inl e \<Rightarrow> Inl e
               | Inr w \<Rightarrow>
              (case Tensor np (mem 1) nOutput of
                 Inl e \<Rightarrow> Inl e
               | Inr b \<Rightarrow>
              (case Tensor np (mem 2) nOutput of
                 Inl e \<Rightarrow> Inl e
               | Inr gw \<Rightarrow>
              (case Tensor np (mem 3) nOutput of
                 Inl e \<Rightarrow> Inl e
               | Inr gb \<Rightarrow>
                   Inr (reset draw
                          (self\<lparr>weight := Some w, bias := Some b,
                                gradWeight := Some gw, gradBias := Some gb\<rparr>))))))
            else
              Inr (self\<lparr>weight := None, bias := None, gradWeight := None,
                        gradBias := None\<rparr>))))
      else Inl AssertionError)"

text \<open>\<^verbatim>\<open>_checkInputDim\<close>: the two shape checks, with the messages as the file builds them.\<close>

definition p_checkInputDim :: "BatchNormalization \<Rightarrow> tensor \<Rightarrow> error + unit" where
  "p_checkInputDim self input =
     (if dim_t input \<noteq> 2 then
        (case format ''only mini-batch supported (2D tensor), got {}D tensor instead''
                [str_nat (dim_t input)] of
           Inl e \<Rightarrow> Inl e
         | Inr msg \<Rightarrow> Inl (RuntimeError msg))
      else if size_t input 1 \<noteq> nElement (running_mean self) then
        (case format ''got %d-feature tensor, expected %d''
                [str_nat (size_t input 1), str_nat (nElement (running_mean self))] of
           Inl e \<Rightarrow> Inl e
         | Inr msg \<Rightarrow> Inl (RuntimeError msg))
      else Inr ())"

text \<open>
  \<^verbatim>\<open>_makeContiguous\<close>: a tensor that is not contiguous is copied into the layer's
  buffer \<^verbatim>\<open>_input\<close> (\<^verbatim>\<open>_gradOutput\<close>), which is created on first use; reading the
  buffer's attribute raises when the object has no such attribute.
\<close>

definition p_makeContiguous ::
  "BatchNormalization \<Rightarrow> tensor \<Rightarrow> tensor option
     \<Rightarrow> (error + tensor \<times> tensor option) \<times> BatchNormalization" where
  "p_makeContiguous self input gradOutput =
     (case (if \<not> isContiguous input then
              (case getattr ''_input'' (p_input self) of
                 Inl e \<Rightarrow> (Inl e, self)
               | Inr cur \<Rightarrow>
                   (let buf = copy_t (resizeAs (or_else cur (new_t input)) input) input
                    in (Inr buf, self\<lparr>p_input := Attr (Some buf)\<rparr>)))
            else (Inr input, self)) of
        (Inl e, self1) \<Rightarrow> (Inl e, self1)
      | (Inr input1, self1) \<Rightarrow>
          (case gradOutput of
             None \<Rightarrow> (Inr (input1, None), self1)
           | Some g \<Rightarrow>
               if \<not> isContiguous g then
                 (case getattr ''_gradOutput'' (p_gradOutput self1) of
                    Inl e \<Rightarrow> (Inl e, self1)
                  | Inr cur \<Rightarrow>
                      (let buf = copy_t (resizeAs (or_else cur (new_t g)) g) g
                       in (Inr (input1, Some buf), self1\<lparr>p_gradOutput := Attr (Some buf)\<rparr>)))
               else (Inr (input1, Some g), self1)))"

text \<open>\<^verbatim>\<open>updateOutput\<close> (forward).\<close>

definition updateOutput ::
  "BatchNormalization \<Rightarrow> tensor \<Rightarrow> (error + tensor) \<times> BatchNormalization" where
  "updateOutput self input =
     (case p_checkInputDim self input of
        Inl e \<Rightarrow> (Inl e, self)
      | Inr u \<Rightarrow>
     (case p_makeContiguous self input None of
        (Inl e, self1) \<Rightarrow> (Inl e, self1)
      | (Inr (input1, g), self1) \<Rightarrow>
     (let self2 = self1\<lparr>output := resizeAs (output self1) input1\<rparr> in
      case getattr ''save_mean'' (save_mean self2) of
        Inl e \<Rightarrow> (Inl e, self2)
      | Inr sm \<Rightarrow>
     (let save_mean1 = resizeAs (or_else sm (new_t input1)) (running_mean self2);
          self3 = self2\<lparr>save_mean := Attr (Some save_mean1)\<rparr> in
      case getattr ''save_std'' (save_std self3) of
        Inl e \<Rightarrow> (Inl e, self3)
      | Inr ss \<Rightarrow>
     (let save_std1 = resizeAs (or_else ss (new_t input1)) (running_var self3);
          self4 = self3\<lparr>save_std := Attr (Some save_std1)\<rparr>;
          (out, rm, rv, sm', ss') =
             BatchNormalization_updateOutput (p_backend self4)
               (library_state (p_backend self4))
               input1 (output self4) (weight self4) (bias self4)
               (running_mean self4) (running_var self4) save_mean1 save_std1
               (train self4) (momentum self4) (eps self4);
          self5 = self4\<lparr>output := out, running_mean := rm, running_var := rv,
                        save_mean := Attr (Some sm'), save_std := Attr (Some ss')\<rparr>
      in (Inr (output self5), self5))))))"

text \<open>
  \<^verbatim>\<open>_backward\<close>. The buffers \<open>gradInput'\<close>, \<open>gradWeight'\<close> and \<open>gradBias'\<close> are passed
  by reference: each is \<^verbatim>\<open>None\<close> or the layer's own buffer of that name (so the three
  callers below), and what the kernel writes into a buffer it was given shows in the
  layer's attribute. The result is \<^verbatim>\<open>self.gradInput\<close>, read after the kernel ran.
  (\<^verbatim>\<open>_makeContiguous\<close> hands a tensor back for the tensor it was given; the branch
  for \<^verbatim>\<open>None\<close> is there for completeness of the case distinction.)
\<close>

definition p_backward ::
  "BatchNormalization \<Rightarrow> tensor \<Rightarrow> tensor \<Rightarrow> real
     \<Rightarrow> tensor option \<Rightarrow> tensor option \<Rightarrow> tensor option
     \<Rightarrow> (error + tensor) \<times> BatchNormalization" where
  "p_backward self input gradOutput scale gradInput' gradWeight' gradBias' =
     (case p_checkInputDim self input of
        Inl e \<Rightarrow> (Inl e, self)
      | Inr u \<Rightarrow>
     (case p_checkInputDim self gradOutput of
        Inl e \<Rightarrow> (Inl e, self)
      | Inr u \<Rightarrow>
     (if \<not> hasattr (save_mean self) \<or> \<not> hasattr (save_std self) then
        (Inl (RuntimeError
                ''you have to call updateOutput() at least once before backward()''), self)
      else
     (case p_makeContiguous self input (Some gradOutput) of
        (Inl e, self1) \<Rightarrow> (Inl e, self1)
      | (Inr (input1, None), self1) \<Rightarrow> (Inl TypeError, self1)
      | (Inr (input1, Some gradOutput1), self1) \<Rightarrow>
     (case getattr ''save_mean'' (save_mean self1) of
        Inl e \<Rightarrow> (Inl e, self1)
      | Inr sm \<Rightarrow>
     (case getattr ''save_std'' (save_std self1) of
        Inl e \<Rightarrow> (Inl e, self1)
      | Inr ss \<Rightarrow>
     (let scale1 = (if scale = 0 then 1 else scale);
          gradInput1 = (case gradInput' of
                          None \<Rightarrow> None
                        | Some gi \<Rightarrow> Some (resizeAs gi gradOutput1));
          (gi', gw', gb') =
             BatchNormalization_backward (p_backend self1)
               (library_state (p_backend self1))
               input1 gradOutput1 gradInput1 gradWeight' gradBias'
               (weight self1) (running_mean self1) (running_var self1) sm ss
               (train self1) scale1 (eps self1);
          self2 = self1\<lparr>gradInput := (case gradInput' of
                                         None \<Rightarrow> gradInput self1
                                       | Some gi \<Rightarrow> gi'),
                        gradWeight := (case gradWeight' of
                                         None \<Rightarrow> gradWeight self1
                                       | Some gw \<Rightarrow> Some gw'),
                        gradBias := (case gradBias' of
                                       None \<Rightarrow> gradBias self1
                                     | Some gb \<Rightarrow> Some gb')\<rparr>
      in (Inr (gradInput self2), self2))))))))"

definition backward ::
  "BatchNormalization \<Rightarrow> tensor \<Rightarrow> tensor \<Rightarrow> real \<Rightarrow> (error + tensor) \<times> BatchNormalization" where
  "backward self input gradOutput scale =
     p_backward self input gradOutput scale
       (Some (gradInput self)) (gradWeight self) (gradBias self)"

definition updateGradInput ::
  "BatchNormalization \<Rightarrow> tensor \<Rightarrow> tensor \<Rightarrow> (error + tensor) \<times> BatchNormalization" where
  "updateGradInput self input gradOutput =
     p_backward self input gradOutput 1 (Some (gradInput self)) None None"

definition accGradParameters ::
  "BatchNormalization \<Rightarrow> tensor \<Rightarrow> tensor \<Rightarrow> real \<Rightarrow> (error + tensor) \<times> BatchNormalization" where
  "accGradParameters self input gradOutput scale =
     p_backward self input gradOutput scale None (gradWeight self) (gradBias self)"

text \<open>
  \<^verbatim>\<open>read\<close>. \<open>Module_read\<close> is the base class's \<^verbatim>\<open>read\<close> (not under src/), called on
  the object with the two arguments the file passes, \<^verbatim>\<open>self\<close> and \<^verbatim>\<open>file\<close>. The name
  \<^verbatim>\<open>nil\<close> of the last line is bound nowhere in the file: evaluating it raises
  \<^verbatim>\<open>NameError\<close>, before the assignment it stands in.
\<close>

definition read ::
  "(BatchNormalization \<Rightarrow> BatchNormalization \<Rightarrow> 'f \<Rightarrow> (error + unit) \<times> BatchNormalization)
     \<Rightarrow> BatchNormalization \<Rightarrow> 'f \<Rightarrow> int \<Rightarrow> (error + unit) \<times> BatchNormalization" where
  "read Module_read self file version =
     (case Module_read self self file of
        (Inl e, self1) \<Rightarrow> (Inl e, self1)
      | (Inr u, self1) \<Rightarrow>
          if version < 2 then
            (case getattr ''running_std'' (running_std self1) of
               Inl e \<Rightarrow> (Inl e, self1)
             | Inr None \<Rightarrow> (Inr (), self1)
             | Inr (Some rs) \<Rightarrow>
                 (let self2 = self1\<lparr>running_var := add_t (pow_t rs (- 2)) (- eps self1)\<rparr>
                  in (Inl (NameError ''nil''), self2)))
          else (Inr (), self1))"

text \<open>
  Modelled from the spec: \<^verbatim>\<open>nn.utils.clear\<close> is not under src/. The spec says that
  clearing drops the forward cache and the temporary buffers: an attribute named in the
  call that the object has is left holding no tensor (\<^verbatim>\<open>None\<close>, or the empty
  tensor for an attribute that always holds one); a name the object does not have is
  skipped.
\<close>

definition drop_attr :: "tensor option attr \<Rightarrow> tensor option attr" where
  "drop_attr a = (case a of NoAttr \<Rightarrow> NoAttr | Attr v \<Rightarrow> Attr None)"

text \<open>
  Modelled from the spec: clearing one attribute by its name (part of \<^verbatim>\<open>nn.utils.clear\<close>,
  not under src/); a name that is no attribute of the layer is skipped.
\<close>

definition clear1 :: "string \<Rightarrow> BatchNormalization \<Rightarrow> BatchNormalization" where
  "clear1 f self =
     (if f = ''buffer'' then self\<lparr>buffer := drop_attr (buffer self)\<rparr>
      else if f = ''buffer2'' then self\<lparr>buffer2 := drop_attr (buffer2 self)\<rparr>
      else if f = ''centered'' then self\<lparr>centered := drop_attr (centered self)\<rparr>
      else if f = ''std'' then self\<lparr>std := drop_attr (std self)\<rparr>
      else if f = ''normalized'' then self\<lparr>normalized := drop_attr (normalized self)\<rparr>
      else if f = ''_input'' then self\<lparr>p_input := drop_attr (p_input self)\<rparr>
      else if f = ''_gradOutput'' then self\<lparr>p_gradOutput := drop_attr (p_gradOutput self)\<rparr>
      else if f = ''save_mean'' then self\<lparr>save_mean := drop_attr (save_mean self)\<rparr>
      else if f = ''save_std'' then self\<lparr>save_std := drop_attr (save_std self)\<rparr>
      else if f = ''running_std'' then self\<lparr>running_std := drop_attr (running_std self)\<rparr>
      else if f = ''running_mean'' then self\<lparr>running_mean := new_t (running_mean self)\<rparr>
      else if f = ''running_var'' then self\<lparr>running_var := new_t (running_var self)\<rparr>
      else if f = ''weight'' then self\<lparr>weight := None\<rparr>
      else if f = ''bias'' then self\<lparr>bias := None\<rparr>
      else if f = ''gradWeight'' then self\<lparr>gradWeight := None\<rparr>
      else if f = ''gradBias'' then self\<lparr>gradBias := None\<rparr>
      else if f = ''output'' then self\<lparr>output := new_t (output self)\<rparr>
      else if f = ''gradInput'' then self\<lparr>gradInput := new_t (gradInput self)\<rparr>
      else self)"

text \<open>
  Modelled from the spec: \<^verbatim>\<open>nn.utils.clear(self, names)\<close> (not under src/) clears the
  named attributes one after the other.
\<close>

fun clear :: "BatchNormalization \<Rightarrow> string list \<Rightarrow> BatchNormalization" where
  "clear self [] = self"
| "clear self (f # fs) = clear (clear1 f self) fs"

text \<open>
  \<^verbatim>\<open>clearState\<close>: the names the file passes to \<^verbatim>\<open>nn.utils.clear\<close>, then the base
  class's \<^verbatim>\<open>clearState\<close> (\<open>Module_clearState\<close>, not under src/), whose result is
  returned.
\<close>

definition clearState ::
  "(BatchNormalization \<Rightarrow> BatchNormalization) \<Rightarrow> BatchNormalization \<Rightarrow> BatchNormalization" where
  "clearState Module_clearState self =
     Module_clearState
       (clear self
          [''buffer'', ''buffer2'', ''centered'', ''std'', ''normalized'',
           ''_input'', ''_gradOutput'', ''save_mean'', ''save_std''])"

text \<open>
  Two states of a layer agree on the running statistics, the forward cache, the affine
  parameters and their gradient accumulators.
\<close>

abbreviation same_parameters :: "BatchNormalization \<Rightarrow> BatchNormalization \<Rightarrow> bool" where
  "same_parameters s s' \<equiv>
     running_mean s' = running_mean s \<and> running_var s' = running_var s
     \<and> save_mean s' = save_mean s \<and> save_std s' = save_std s
     \<and> weight s' = weight s \<and> bias s' = bias s
     \<and> gradWeight s' = gradWeight s \<and> gradBias s' = gradBias s"

section \<open>Concrete objects\<close>

text \<open>
  Concrete values for evaluating calls. \<open>stub_backend\<close> stands in for the compiled
  kernels: its forward kernel copies the input into the output and leaves the statistics
  as they are, its backward kernel writes the scale it was given into every element of
  the buffers it was given. \<open>bare_Module\<close> is an object as a base constructor may leave
  it, with none of the optional attributes (the values of the attributes the constructor
  of this file assigns are placeholders); \<open>draw0\<close> and \<open>mem0\<close> are a random number
  generator and a memory content; \<open>refuses\<close> and \<open>lenient\<close> are two ways an allocator
  may treat a size that is not positive.
\<close>

definition stub_backend :: THNN where
  "stub_backend =
     \<lparr>library_state = 0,
      BatchNormalization_updateOutput =
        (\<lambda>st input out w b rm rv sm ss tr mo ep. (copy_t out input, rm, rv, sm, ss)),
      BatchNormalization_backward =
        (\<lambda>st input g gi gw gb w rm rv sm ss tr sc ep.
           (fill (or_else gi g) sc, fill (or_else gw g) sc, fill (or_else gb g) sc))\<rparr>"

definition empty_tensor :: tensor where
  "empty_tensor = \<lparr>sizes = [], elems = [], contiguous = True\<rparr>"

definition bare_Module :: BatchNormalization where
  "bare_Module =
     \<lparr>output = empty_tensor, gradInput = empty_tensor, p_backend = stub_backend,
      affine = False, eps = 0, train = False, momentum = 0,
      running_mean = empty_tensor, running_var = empty_tensor,
      save_mean = NoAttr, save_std = NoAttr,
      weight = None, bias = None, gradWeight = None, gradBias = None,
      p_input = NoAttr, p_gradOutput = NoAttr, running_std = NoAttr,
      buffer = NoAttr, buffer2 = NoAttr, centered = NoAttr, std = NoAttr,
      normalized = NoAttr\<rparr>"

definition refuses :: nonpositive_sizes where
  "refuses a n = Inl (RuntimeError [])"

definition lenient :: nonpositive_sizes where
  "lenient a n = Inr empty_tensor"

definition draw0 :: "nat \<Rightarrow> real" where
  "draw0 i = 1 / 2"

definition mem0 :: "nat \<Rightarrow> nat \<Rightarrow> real" where
  "mem0 k i = 7"

text \<open>
  A layer of three features, fresh from the constructor, and tensors to call it with: a
  batch of two rows and three features, contiguous and not, a batch of four rows and five
  features, and a vector of three elements.
\<close>

definition layer3 :: BatchNormalization where
  "layer3 =
     (case init refuses bare_Module draw0 mem0 3 (1 / 100000) (1 / 10) True of
        Inl e \<Rightarrow> bare_Module
      | Inr self \<Rightarrow> self)"

definition batch23 :: tensor where
  "batch23 = \<lparr>sizes = [2, 3], elems = [1, 2, 3, 4, 5, 6], contiguous = True\<rparr>"

definition strided23 :: tensor where
  "strided23 = \<lparr>sizes = [2, 3], elems = [1, 2, 3, 4, 5, 6], contiguous = False\<rparr>"

definition batch45 :: tensor where
  "batch45 = \<lparr>sizes = [4, 5], elems = replicate 20 0, contiguous = True\<rparr>"

definition vec3 :: tensor where
  "vec3 = \<lparr>sizes = [3], elems = [1 / 2, 1 / 2, 1 / 2], contiguous = True\<rparr>"

text \<open>
  A base-class \<^verbatim>\<open>read\<close> that loads a layer saved in the old format, with its
  \<^verbatim>\<open>running_std\<close>, and the base-class \<^verbatim>\<open>clearState\<close>, which clears the two
  buffers of the base class.
\<close>

definition old_read ::
  "BatchNormalization \<Rightarrow> BatchNormalization \<Rightarrow> unit \<Rightarrow> (error + unit) \<times> BatchNormalization" where
  "old_read self arg file = (Inr (), self\<lparr>running_std := Attr (Some vec3)\<rparr>)"

definition base_clearState :: "BatchNormalization \<Rightarrow> BatchNormalization" where
  "base_clearState self = clear self [''output'', ''gradInput'']"

section \<open>Properties\<close>

subsection \<open>Shape checks and messages\<close>

lemma format_rank:
  "format ''only mini-batch supported (2D tensor), got {}D tensor instead'' [a]
     = Inr (''only mini-batch supported (2D tensor), got '' @ a @ ''D tensor instead'')"
  by simp

lemma format_features:
  "format ''got %d-feature tensor, expected %d'' [a, b]
     = Inr ''got %d-feature tensor, expected %d''"
  by simp

lemma p_checkInputDim_rank:
  "dim_t x \<noteq> 2 \<Longrightarrow>
   p_checkInputDim self x =
     Inl (RuntimeError (''only mini-batch supported (2D tensor), got '' @ str_nat (dim_t x)
                          @ ''D tensor instead''))"
  by (simp add: p_checkInputDim_def format_rank del: format.simps)

lemma p_checkInputDim_features:
  "dim_t x = 2 \<Longrightarrow> size_t x 1 \<noteq> nElement (running_mean self) \<Longrightarrow>
   p_checkInputDim self x = Inl (RuntimeError ''got %d-feature tensor, expected %d'')"
  by (simp add: p_checkInputDim_def format_features del: format.simps)

lemma p_checkInputDim_ok:
  "dim_t x = 2 \<Longrightarrow> size_t x 1 = nElement (running_mean self) \<Longrightarrow>
   p_checkInputDim self x = Inr ()"
  by (simp add: p_checkInputDim_def)

lemma p_checkInputDim_Inr_iff:
  "(p_checkInputDim self x = Inr u) =
     (dim_t x = 2 \<and> size_t x 1 = nElement (running_mean self))"
proof (cases "dim_t x = 2")
  case rank: True
  show ?thesis
  proof (cases "size_t x 1 = nElement (running_mean self)")
    case True
    with rank show ?thesis by (simp add: p_checkInputDim_ok)
  next
    case False
    with rank show ?thesis by (simp add: p_checkInputDim_features)
  qed
next
  case False
  then show ?thesis by (simp add: p_checkInputDim_rank)
qed

lemma p_checkInputDim_not_state_error:
  "p_checkInputDim self x \<noteq>
     Inl (RuntimeError ''you have to call updateOutput() at least once before backward()'')"
proof (cases "dim_t x = 2")
  case rank: True
  show ?thesis
  proof (cases "size_t x 1 = nElement (running_mean self)")
    case True
    with rank show ?thesis by (simp add: p_checkInputDim_ok)
  next
    case False
    with rank show ?thesis by (simp add: p_checkInputDim_features)
  qed
next
  case False
  then show ?thesis by (simp add: p_checkInputDim_rank)
qed

subsection \<open>The constructor\<close>

lemma alloc_positive:
  "0 < n \<Longrightarrow>
   alloc refused n f = Inr \<lparr>sizes = [nat n], elems = map f [0..<nat n], contiguous = True\<rparr>"
  by (simp add: alloc_def)

lemma init_zero: "init np m draw mem 0 e mo a = Inl AssertionError"
  by (simp add: init_def)

lemma init_Inr:
  "0 < nOutput \<Longrightarrow> \<exists>self. init np m draw mem nOutput e mo a = Inr self"
  by (simp add: init_def Let_def zeros_def ones_def Tensor_def alloc_positive)

lemma init_cache:
  "init np m draw mem nOutput e mo a = Inr self \<Longrightarrow>
     save_mean self = Attr None \<and> save_std self = Attr None"
  by (auto simp: init_def Let_def reset_def split: if_splits option.splits sum.splits)

lemma init_affine_link:
  "init np m draw mem nOutput e mo a = Inr self \<Longrightarrow>
     affine self = (weight self \<noteq> None) \<and> affine self = (bias self \<noteq> None)"
  by (auto simp: init_def Let_def reset_def split: if_splits option.splits sum.splits)

lemma init_features:
  "0 < nOutput \<Longrightarrow> init np m draw mem nOutput e mo a = Inr self \<Longrightarrow>
     nElement (running_mean self) = nat nOutput"
  by (auto simp: init_def Let_def reset_def zeros_def ones_def Tensor_def alloc_positive
             zero_t_def nElement_def
           split: if_splits option.splits)

text \<open>
  What the constructor decides about the feature count: it fails for 0 whatever the
  allocators do, and for every other count it fails exactly when one of its allocations
  raises. For a negative count that is the allocators' matter: with allocators that
  refuse such a size the construction fails, with allocators that hand back an empty
  tensor it gives a layer without features.
\<close>

lemma init_fails_iff:
  "isl (init np m draw mem nOutput e mo a) =
     (nOutput = 0 \<or>
      (nOutput < 0 \<and>
         (isl (np Zeros nOutput) \<or> isl (np Ones nOutput)
          \<or> (a \<and> isl (np Uninitialised nOutput)))))"
proof (cases "nOutput = 0")
  case True
  then show ?thesis by (simp add: init_zero)
next
  case nz: False
  show ?thesis
  proof (cases "0 < nOutput")
    case True
    then show ?thesis using init_Inr[OF True, of np m draw mem e mo a] by auto
  next
    case False
    then have neg: "nOutput < 0" using nz by simp
    then show ?thesis
      by (cases "np Zeros nOutput"; cases "np Ones nOutput"; cases "np Uninitialised nOutput";
          cases a)
         (simp_all add: init_def Let_def zeros_def ones_def Tensor_def alloc_def)
  qed
qed

lemma init_negative_refuses:
  "isl (init refuses bare_Module draw0 mem0 (- 1) (1 / 100000) (1 / 10) True)"
  by (simp add: init_fails_iff refuses_def)

lemma init_negative_lenient:
  "\<not> isl (init lenient bare_Module draw0 mem0 (- 1) (1 / 100000) (1 / 10) True)"
  by (simp add: init_fails_iff lenient_def)

lemma init_layer3:
  "init refuses bare_Module draw0 mem0 3 (1 / 100000) (1 / 10) True = Inr layer3"
  using init_Inr[of 3 refuses bare_Module draw0 mem0 "1 / 100000" "1 / 10" True]
  by (auto simp: layer3_def)

lemma layer3_features: "nElement (running_mean layer3) = 3"
  using init_features[OF _ init_layer3] by simp

lemma layer3_cache: "save_mean layer3 = Attr None" "save_std layer3 = Attr None"
  using init_cache[OF init_layer3] by simp_all

lemma check_layer3_batch23: "p_checkInputDim layer3 batch23 = Inr ()"
  by (simp add: p_checkInputDim_Inr_iff layer3_features dim_t_def size_t_def batch23_def)

lemma check_layer3_strided23: "p_checkInputDim layer3 strided23 = Inr ()"
  by (simp add: p_checkInputDim_Inr_iff layer3_features dim_t_def size_t_def strided23_def)

subsection \<open>Contiguity buffers\<close>

lemma p_makeContiguous_frame:
  "(snd (p_makeContiguous self x g))\<lparr>p_input := p_input self, p_gradOutput := p_gradOutput self\<rparr>
     = self"
  by (simp add: p_makeContiguous_def getattr_def Let_def split: attr.splits option.splits)

lemma p_makeContiguous_None:
  "p_makeContiguous self x None = (Inl e, s1) \<Longrightarrow> s1 = self"
  by (simp add: p_makeContiguous_def getattr_def Let_def split: attr.splits if_splits)

lemma p_makeContiguous_Some:
  "p_makeContiguous self x (Some g) \<noteq> (Inr (x1, None), s1)"
  by (simp add: p_makeContiguous_def getattr_def Let_def split: attr.splits if_splits)

lemma p_makeContiguous_contiguous:
  "isContiguous x \<Longrightarrow> isContiguous g \<Longrightarrow>
   p_makeContiguous self x (Some g) = (Inr (x, Some g), self)"
  by (simp add: p_makeContiguous_def)

subsection \<open>The shared backward routine, case by case\<close>

lemma p_backward_check_input:
  "p_checkInputDim self x = Inl e \<Longrightarrow> p_backward self x g s gi gw gb = (Inl e, self)"
  by (simp add: p_backward_def)

lemma p_backward_check_gradOutput:
  "p_checkInputDim self x = Inr u \<Longrightarrow> p_checkInputDim self g = Inl e \<Longrightarrow>
   p_backward self x g s gi gw gb = (Inl e, self)"
  by (simp add: p_backward_def)

lemma p_backward_guard:
  "p_checkInputDim self x = Inr u \<Longrightarrow> p_checkInputDim self g = Inr u' \<Longrightarrow>
   \<not> hasattr (save_mean self) \<or> \<not> hasattr (save_std self) \<Longrightarrow>
   p_backward self x g s gi gw gb =
     (Inl (RuntimeError ''you have to call updateOutput() at least once before backward()''),
      self)"
  by (simp add: p_backward_def)

lemma p_backward_buffers:
  "p_checkInputDim self x = Inr u \<Longrightarrow> p_checkInputDim self g = Inr u' \<Longrightarrow>
   hasattr (save_mean self) \<Longrightarrow> hasattr (save_std self) \<Longrightarrow>
   p_makeContiguous self x (Some g) = (Inl e, self1) \<Longrightarrow>
   p_backward self x g s gi gw gb = (Inl e, self1)"
  by (simp add: p_backward_def)

lemma p_backward_kernel:
  assumes "p_checkInputDim self x = Inr u" and "p_checkInputDim self g = Inr u'"
      and "save_mean self = Attr sm" and "save_std self = Attr ss"
      and "p_makeContiguous self x (Some g) = (Inr (x1, Some g1), self1)"
  shows "p_backward self x g s gi gw gb =
     (case BatchNormalization_backward (p_backend self) (library_state (p_backend self))
             x1 g1 (case gi of None \<Rightarrow> None | Some t \<Rightarrow> Some (resizeAs t g1)) gw gb
             (weight self) (running_mean self) (running_var self) sm ss
             (train self) (if s = 0 then 1 else s) (eps self) of
        (gi', gw', gb') \<Rightarrow>
          (Inr (case gi of None \<Rightarrow> gradInput self | Some t \<Rightarrow> gi'),
           self1\<lparr>gradInput := (case gi of None \<Rightarrow> gradInput self | Some t \<Rightarrow> gi'),
                 gradWeight := (case gw of None \<Rightarrow> gradWeight self | Some t \<Rightarrow> Some gw'),
                 gradBias := (case gb of None \<Rightarrow> gradBias self | Some t \<Rightarrow> Some gb')\<rparr>))"
proof -
  have f: "self1\<lparr>p_input := p_input self, p_gradOutput := p_gradOutput self\<rparr> = self"
    using p_makeContiguous_frame[of self x "Some g"] assms(5) by simp
  have eqs: "save_mean self1 = save_mean self" "save_std self1 = save_std self"
    "p_backend self1 = p_backend self" "weight self1 = weight self"
    "running_mean self1 = running_mean self" "running_var self1 = running_var self"
    "train self1 = train self" "eps self1 = eps self" "gradInput self1 = gradInput self"
    "gradWeight self1 = gradWeight self" "gradBias self1 = gradBias self"
    using arg_cong[OF f, of save_mean] arg_cong[OF f, of save_std]
      arg_cong[OF f, of p_backend] arg_cong[OF f, of weight]
      arg_cong[OF f, of running_mean] arg_cong[OF f, of running_var]
      arg_cong[OF f, of train] arg_cong[OF f, of eps] arg_cong[OF f, of gradInput]
      arg_cong[OF f, of gradWeight] arg_cong[OF f, of gradBias]
    by simp_all
  show ?thesis
    using assms
    by (simp add: p_backward_def hasattr_def getattr_def eqs Let_def
          split: prod.splits cong: option.case_cong)
qed


lemma p_backward_outcome:
  obtains
    (check_input) e where "p_checkInputDim self x = Inl e"
      and "p_backward self x g s gi gw gb = (Inl e, self)"
  | (check_gradOutput) e where "p_checkInputDim self x = Inr ()"
      and "p_checkInputDim self g = Inl e"
      and "p_backward self x g s gi gw gb = (Inl e, self)"
  | (guard) "p_checkInputDim self x = Inr ()" and "p_checkInputDim self g = Inr ()"
      and "\<not> hasattr (save_mean self) \<or> \<not> hasattr (save_std self)"
      and "p_backward self x g s gi gw gb =
             (Inl (RuntimeError
                     ''you have to call updateOutput() at least once before backward()''),
              self)"
  | (buffers) e self1 where "p_checkInputDim self x = Inr ()"
      and "p_checkInputDim self g = Inr ()"
      and "p_makeContiguous self x (Some g) = (Inl e, self1)"
      and "p_backward self x g s gi gw gb = (Inl e, self1)"
  | (kernel) sm ss x1 g1 self1 gi' gw' gb' where "p_checkInputDim self x = Inr ()"
      and "p_checkInputDim self g = Inr ()"
      and "save_mean self = Attr sm" and "save_std self = Attr ss"
      and "p_makeContiguous self x (Some g) = (Inr (x1, Some g1), self1)"
      and "BatchNormalization_backward (p_backend self) (library_state (p_backend self))
             x1 g1 (case gi of None \<Rightarrow> None | Some t \<Rightarrow> Some (resizeAs t g1)) gw gb
             (weight self) (running_mean self) (running_var self) sm ss
             (train self) (if s = 0 then 1 else s) (eps self) = (gi', gw', gb')"
      and "p_backward self x g s gi gw gb =
          (Inr (case gi of None \<Rightarrow> gradInput self | Some t \<Rightarrow> gi'),
           self1\<lparr>gradInput := (case gi of None \<Rightarrow> gradInput self | Some t \<Rightarrow> gi'),
                 gradWeight := (case gw of None \<Rightarrow> gradWeight self | Some t \<Rightarrow> Some gw'),
                 gradBias := (case gb of None \<Rightarrow> gradBias self | Some t \<Rightarrow> Some gb')\<rparr>)"
proof (cases "p_checkInputDim self x")
  case (Inl e)
  then show ?thesis using check_input p_backward_check_input by blast
next
  case cx: (Inr u)
  show ?thesis
  proof (cases "p_checkInputDim self g")
    case (Inl e)
    then show ?thesis using cx check_gradOutput p_backward_check_gradOutput by simp
  next
    case cg: (Inr u')
    show ?thesis
    proof (cases "hasattr (save_mean self) \<and> hasattr (save_std self)")
      case False
      then show ?thesis using cx cg guard p_backward_guard[of self x _ g] by simp
    next
      case True
      then obtain sm ss where c: "save_mean self = Attr sm" "save_std self = Attr ss"
        by (auto simp: hasattr_def split: attr.splits)
      obtain r self1 where mk: "p_makeContiguous self x (Some g) = (r, self1)"
        by (cases "p_makeContiguous self x (Some g)")
      show ?thesis
      proof (cases r)
        case (Inl e)
        then show ?thesis
          using cx cg True mk buffers p_backward_buffers[of self x _ g] by simp
      next
        case (Inr p)
        then obtain x1 g1 where p: "r = Inr (x1, Some g1)"
          using mk p_makeContiguous_Some[of self x g] by (cases p; cases "snd p") auto
        obtain gi' gw' gb' where
          k: "BatchNormalization_backward (p_backend self) (library_state (p_backend self))
             x1 g1 (case gi of None \<Rightarrow> None | Some t \<Rightarrow> Some (resizeAs t g1)) gw gb
             (weight self) (running_mean self) (running_var self) sm ss
             (train self) (if s = 0 then 1 else s) (eps self) = (gi', gw', gb')"
          using prod_cases3 by blast
        show ?thesis
          using kernel[OF _ _ c mk[unfolded p] k] cx cg
            p_backward_kernel[OF cx cg c mk[unfolded p], of s gi gw gb] k
          by simp
      qed
    qed
  qed
qed

lemma p_backward_error_frame:
  assumes "fst (p_backward self x g s gi gw gb) = Inl e"
  shows "(snd (p_backward self x g s gi gw gb))
           \<lparr>p_input := p_input self, p_gradOutput := p_gradOutput self\<rparr> = self"
proof (cases rule: p_backward_outcome[of self x g s gi gw gb])
  case (buffers e self1)
  then show ?thesis using p_makeContiguous_frame[of self x "Some g"] by simp
next
  case (kernel sm ss x1 g1 self1 gi' gw' gb')
  then show ?thesis using assms by simp
qed simp_all

lemma p_backward_returns_gradInput:
  assumes "fst (p_backward self x g s gi gw gb) = Inr r"
  shows "r = gradInput (snd (p_backward self x g s gi gw gb))"
proof (cases rule: p_backward_outcome[of self x g s gi gw gb])
  case (kernel sm ss x1 g1 self1 gi' gw' gb')
  then show ?thesis using assms by auto
qed (use assms in simp_all)

lemma p_backward_frame:
  "gi = None \<Longrightarrow> gradInput (snd (p_backward self x g s gi gw gb)) = gradInput self"
  "gw = None \<Longrightarrow> gradWeight (snd (p_backward self x g s gi gw gb)) = gradWeight self"
  "gb = None \<Longrightarrow> gradBias (snd (p_backward self x g s gi gw gb)) = gradBias self"
proof -
  have f: "\<And>self1 r. p_makeContiguous self x (Some g) = (r, self1) \<Longrightarrow>
     gradInput self1 = gradInput self \<and> gradWeight self1 = gradWeight self
     \<and> gradBias self1 = gradBias self"
  proof -
    fix self1 r assume a: "p_makeContiguous self x (Some g) = (r, self1)"
    have "self1\<lparr>p_input := p_input self, p_gradOutput := p_gradOutput self\<rparr> = self"
      using p_makeContiguous_frame[of self x "Some g"] a by simp
    from arg_cong[OF this, of gradInput] arg_cong[OF this, of gradWeight]
      arg_cong[OF this, of gradBias]
    show "gradInput self1 = gradInput self \<and> gradWeight self1 = gradWeight self
     \<and> gradBias self1 = gradBias self" by simp
  qed
  show "gi = None \<Longrightarrow> gradInput (snd (p_backward self x g s gi gw gb)) = gradInput self"
    by (cases rule: p_backward_outcome[of self x g s gi gw gb]) (use f in auto)
  show "gw = None \<Longrightarrow> gradWeight (snd (p_backward self x g s gi gw gb)) = gradWeight self"
    by (cases rule: p_backward_outcome[of self x g s gi gw gb]) (use f in auto)
  show "gb = None \<Longrightarrow> gradBias (snd (p_backward self x g s gi gw gb)) = gradBias self"
    by (cases rule: p_backward_outcome[of self x g s gi gw gb]) (use f in auto)
qed


lemma p_backward_no_state_error:
  assumes "hasattr (save_mean self)" and "hasattr (save_std self)"
  shows "fst (p_backward self x g s gi gw gb) \<noteq>
     Inl (RuntimeError ''you have to call updateOutput() at least once before backward()'')"
proof (cases rule: p_backward_outcome[of self x g s gi gw gb])
  case (check_input e)
  then show ?thesis using p_checkInputDim_not_state_error[of self x] by auto
next
  case (check_gradOutput e)
  then show ?thesis using p_checkInputDim_not_state_error[of self g] by auto
next
  case guard
  then show ?thesis using assms by simp
next
  case (buffers e self1)
  then show ?thesis
    by (auto simp: p_makeContiguous_def getattr_def Let_def
             split: attr.splits if_splits)
next
  case (kernel sm ss x1 g1 self1 gi' gw' gb')
  then show ?thesis by simp
qed

lemma p_backward_completes:
  assumes "p_checkInputDim self x = Inr ()" and "p_checkInputDim self g = Inr ()"
      and "hasattr (save_mean self)" and "hasattr (save_std self)"
      and "isContiguous x" and "isContiguous g"
  shows "\<not> isl (fst (p_backward self x g s gi gw gb))"
proof (cases rule: p_backward_outcome[of self x g s gi gw gb])
  case (buffers e self1)
  then show ?thesis using p_makeContiguous_contiguous[OF assms(5,6), of self] by simp
qed (use assms in simp_all)

lemma upt3: "[0..<3] = [0, 1, 2]"
  by (simp add: upt_rec)

lemma layer3_eq:
  "layer3 =
     \<lparr>output = empty_tensor, gradInput = empty_tensor, p_backend = stub_backend,
      affine = True, eps = 1 / 100000, train = True, momentum = 1 / 10,
      running_mean = \<lparr>sizes = [3], elems = [0, 0, 0], contiguous = True\<rparr>,
      running_var = \<lparr>sizes = [3], elems = [1, 1, 1], contiguous = True\<rparr>,
      save_mean = Attr None, save_std = Attr None,
      weight = Some \<lparr>sizes = [3], elems = [1 / 2, 1 / 2, 1 / 2], contiguous = True\<rparr>,
      bias = Some \<lparr>sizes = [3], elems = [0, 0, 0], contiguous = True\<rparr>,
      gradWeight = Some \<lparr>sizes = [3], elems = [7, 7, 7], contiguous = True\<rparr>,
      gradBias = Some \<lparr>sizes = [3], elems = [7, 7, 7], contiguous = True\<rparr>,
      p_input = NoAttr, p_gradOutput = NoAttr, running_std = NoAttr,
      buffer = NoAttr, buffer2 = NoAttr, centered = NoAttr, std = NoAttr,
      normalized = NoAttr\<rparr>"
  by (simp add: layer3_def init_def Let_def reset_def bare_Module_def zeros_def ones_def
        Tensor_def alloc_def uniform_def zero_t_def fill_def draw0_def mem0_def upt3)

lemma eps_layer3: "eps layer3 = 1 / 100000"
  by (simp add: layer3_eq)

subsection \<open>Forward, case by case\<close>

lemma updateOutput_check:
  "p_checkInputDim self x = Inl e \<Longrightarrow> updateOutput self x = (Inl e, self)"
  by (simp add: updateOutput_def)

lemma p_makeContiguous_None_cases:
  obtains (raise) e where "p_makeContiguous self x None = (Inl e, self)"
  | (ok) x1 a where "p_makeContiguous self x None = (Inr (x1, None), self\<lparr>p_input := a\<rparr>)"
proof (cases "isContiguous x")
  case True
  have "self\<lparr>p_input := p_input self\<rparr> = self" by simp
  then have "p_makeContiguous self x None = (Inr (x, None), self\<lparr>p_input := p_input self\<rparr>)"
    using True by (simp add: p_makeContiguous_def)
  then show ?thesis using ok by blast
next
  case False
  show ?thesis
  proof (cases "p_input self")
    case NoAttr
    then show ?thesis using False raise by (simp add: p_makeContiguous_def getattr_def)
  next
    case (Attr cur)
    then show ?thesis using False ok by (simp add: p_makeContiguous_def getattr_def Let_def)
  qed
qed

lemma updateOutput_after_buffers:
  assumes "p_checkInputDim self x = Inr u"
      and "p_makeContiguous self x None = (Inr (x1, g1), self1)"
  shows "updateOutput self x =
     (case save_mean self1 of
        NoAttr \<Rightarrow> (Inl (AttributeError ''save_mean''),
                   self1\<lparr>output := resizeAs (output self1) x1\<rparr>)
      | Attr sm \<Rightarrow>
         (case save_std self1 of
            NoAttr \<Rightarrow> (Inl (AttributeError ''save_std''),
                       self1\<lparr>output := resizeAs (output self1) x1,
                             save_mean := Attr (Some (resizeAs (or_else sm (new_t x1))
                                                        (running_mean self1)))\<rparr>)
          | Attr ss \<Rightarrow>
             (case BatchNormalization_updateOutput (p_backend self1)
                     (library_state (p_backend self1)) x1 (resizeAs (output self1) x1)
                     (weight self1) (bias self1) (running_mean self1) (running_var self1)
                     (resizeAs (or_else sm (new_t x1)) (running_mean self1))
                     (resizeAs (or_else ss (new_t x1)) (running_var self1))
                     (train self1) (momentum self1) (eps self1) of
                (out, rm, rv, sm', ss') \<Rightarrow>
                  (Inr out,
                   self1\<lparr>output := out, running_mean := rm, running_var := rv,
                         save_mean := Attr (Some sm'), save_std := Attr (Some ss')\<rparr>))))"
  using assms
  by (simp add: updateOutput_def getattr_def Let_def split: attr.splits prod.splits)


lemma updateOutput_error_frame:
  assumes "hasattr (save_std self)" and "fst (updateOutput self x) = Inl e"
  shows "(snd (updateOutput self x))\<lparr>output := output self, p_input := p_input self\<rparr> = self"
proof (cases "p_checkInputDim self x")
  case (Inl e')
  then show ?thesis by (simp add: updateOutput_check)
next
  case cx: (Inr u)
  show ?thesis
  proof (cases rule: p_makeContiguous_None_cases[of self x])
    case (raise e')
    then show ?thesis using cx by (simp add: updateOutput_def)
  next
    case (ok x1 a)
    obtain ss where "save_std self = Attr ss"
      using assms(1) by (auto simp: hasattr_def split: attr.splits)
    then show ?thesis
      using assms(2) updateOutput_after_buffers[OF cx ok]
      by (auto split: attr.splits prod.splits)
  qed
qed

lemma same_parameters_buffers:
  "s'\<lparr>p_input := a, p_gradOutput := b\<rparr> = s \<Longrightarrow> same_parameters s s'"
proof -
  assume f: "s'\<lparr>p_input := a, p_gradOutput := b\<rparr> = s"
  from arg_cong[OF f, of running_mean] arg_cong[OF f, of running_var]
    arg_cong[OF f, of save_mean] arg_cong[OF f, of save_std]
    arg_cong[OF f, of weight] arg_cong[OF f, of bias]
    arg_cong[OF f, of gradWeight] arg_cong[OF f, of gradBias]
  show ?thesis by simp
qed

lemma same_parameters_output:
  "s'\<lparr>output := a, p_input := b\<rparr> = s \<Longrightarrow> same_parameters s s'"
proof -
  assume f: "s'\<lparr>output := a, p_input := b\<rparr> = s"
  from arg_cong[OF f, of running_mean] arg_cong[OF f, of running_var]
    arg_cong[OF f, of save_mean] arg_cong[OF f, of save_std]
    arg_cong[OF f, of weight] arg_cong[OF f, of bias]
    arg_cong[OF f, of gradWeight] arg_cong[OF f, of gradBias]
  show ?thesis by simp
qed

subsection \<open>Raises and the attributes of the cache\<close>

lemma p_makeContiguous_raise_unchanged:
  assumes "hasattr (p_input self) = hasattr (p_gradOutput self)"
      and "p_makeContiguous self x g = (Inl e, self1)"
  shows "self1 = self"
  using assms
  by (auto simp: p_makeContiguous_def getattr_def hasattr_def Let_def
           split: attr.splits option.splits if_splits)

lemma p_backward_error_unchanged:
  assumes "hasattr (p_input self) = hasattr (p_gradOutput self)"
      and "fst (p_backward self x g s gi gw gb) = Inl e"
  shows "snd (p_backward self x g s gi gw gb) = self"
proof (cases rule: p_backward_outcome[of self x g s gi gw gb])
  case (buffers e self1)
  then show ?thesis using p_makeContiguous_raise_unchanged[OF assms(1)] by simp
next
  case (kernel sm ss x1 g1 self1 gi' gw' gb')
  then show ?thesis using assms(2) by simp
qed simp_all

lemma updateOutput_error_unchanged:
  assumes "hasattr (save_mean self)" and "hasattr (save_std self)"
      and "fst (updateOutput self x) = Inl e"
  shows "snd (updateOutput self x) = self"
proof (cases "p_checkInputDim self x")
  case (Inl e')
  then show ?thesis by (simp add: updateOutput_check)
next
  case cx: (Inr u)
  show ?thesis
  proof (cases rule: p_makeContiguous_None_cases[of self x])
    case (raise e')
    then show ?thesis using cx by (simp add: updateOutput_def)
  next
    case (ok x1 a)
    obtain sm ss where "save_mean self = Attr sm" "save_std self = Attr ss"
      using assms(1,2) by (auto simp: hasattr_def split: attr.splits)
    then show ?thesis
      using assms(3) updateOutput_after_buffers[OF cx ok]
      by (auto split: prod.splits)
  qed
qed

lemma p_backward_keeps_cache:
  "save_mean (snd (p_backward self x g s gi gw gb)) = save_mean self
   \<and> save_std (snd (p_backward self x g s gi gw gb)) = save_std self"
proof -
  have f: "\<And>self1 r. p_makeContiguous self x (Some g) = (r, self1) \<Longrightarrow>
     save_mean self1 = save_mean self \<and> save_std self1 = save_std self"
  proof -
    fix self1 r assume a: "p_makeContiguous self x (Some g) = (r, self1)"
    have "self1\<lparr>p_input := p_input self, p_gradOutput := p_gradOutput self\<rparr> = self"
      using p_makeContiguous_frame[of self x "Some g"] a by simp
    from arg_cong[OF this, of save_mean] arg_cong[OF this, of save_std]
    show "save_mean self1 = save_mean self \<and> save_std self1 = save_std self" by simp
  qed
  show ?thesis
    by (cases rule: p_backward_outcome[of self x g s gi gw gb]) (use f in auto)
qed

lemma updateOutput_keeps_cache_attributes:
  assumes "hasattr (save_mean self)" and "hasattr (save_std self)"
  shows "hasattr (save_mean (snd (updateOutput self x)))
       \<and> hasattr (save_std (snd (updateOutput self x)))"
proof (cases "p_checkInputDim self x")
  case (Inl e')
  then show ?thesis using assms by (simp add: updateOutput_check)
next
  case cx: (Inr u)
  show ?thesis
  proof (cases rule: p_makeContiguous_None_cases[of self x])
    case (raise e')
    then show ?thesis using cx assms by (simp add: updateOutput_def)
  next
    case (ok x1 a)
    obtain sm ss where "save_mean self = Attr sm" "save_std self = Attr ss"
      using assms(1,2) by (auto simp: hasattr_def split: attr.splits)
    then show ?thesis
      using updateOutput_after_buffers[OF cx ok]
      by (auto simp: hasattr_def split: prod.splits)
  qed
qed

subsection \<open>Concrete calls\<close>

lemma check_layer3_vec3:
  "p_checkInputDim layer3 vec3 =
     Inl (RuntimeError ''only mini-batch supported (2D tensor), got 1D tensor instead'')"
  using p_checkInputDim_rank[of vec3 layer3]
  by (simp add: dim_t_def vec3_def str_nat.simps digit_char_def)

lemma base_clearState_frame:
  "\<forall>s. same_parameters s (base_clearState s) \<and> p_input (base_clearState s) = p_input s
        \<and> p_gradOutput (base_clearState s) = p_gradOutput s"
  by (simp add: base_clearState_def clear1_def)

lemma replicate6: "replicate 6 v = [v, v, v, v, v, v]"
  by (simp add: eval_nat_numeral)

lemma buffers_layer3_batch23:
  "p_makeContiguous layer3 batch23 (Some batch23) = (Inr (batch23, Some batch23), layer3)"
  by (rule p_makeContiguous_contiguous) (simp_all add: isContiguous_def batch23_def)

subsection \<open>The claims\<close>

text \<open>
  C1 (does not hold of the code). The claim: on a layer that never ran forward, every
  backward entry point raises the error saying that \<^verbatim>\<open>updateOutput\<close> must be called
  first. The guard of \<^verbatim>\<open>_backward\<close> asks whether the attributes \<^verbatim>\<open>save_mean\<close> and
  \<^verbatim>\<open>save_std\<close> exist, and the constructor creates both (holding \<^verbatim>\<open>None\<close>). So on
  every layer the constructor returns, both attributes exist, no backward entry point
  ever raises that error, whatever the arguments, and with well-shaped contiguous
  arguments all three run through to the kernel and return.
\<close>

theorem C1_guard_passes_before_forward:
  assumes "init np m draw mem nOutput e mo a = Inr self"
  shows "hasattr (save_mean self) \<and> hasattr (save_std self)
       \<and> fst (backward self x g s) \<noteq>
             Inl (RuntimeError ''you have to call updateOutput() at least once before backward()'')
       \<and> fst (updateGradInput self x g) \<noteq>
             Inl (RuntimeError ''you have to call updateOutput() at least once before backward()'')
       \<and> fst (accGradParameters self x g s) \<noteq>
             Inl (RuntimeError ''you have to call updateOutput() at least once before backward()'')
       \<and> (p_checkInputDim self x = Inr () \<and> p_checkInputDim self g = Inr ()
              \<and> isContiguous x \<and> isContiguous g \<longrightarrow>
            \<not> isl (fst (backward self x g s))
            \<and> \<not> isl (fst (updateGradInput self x g))
            \<and> \<not> isl (fst (accGradParameters self x g s)))"
proof -
  from init_cache[OF assms] have h: "hasattr (save_mean self)" "hasattr (save_std self)"
    by (simp_all add: hasattr_def)
  show ?thesis
    using h p_backward_no_state_error[OF h] p_backward_completes[OF _ _ h]
    by (simp add: backward_def updateGradInput_def accGradParameters_def)
qed

text \<open>
  The same at a concrete call: the fresh layer of three features, called with a batch of
  two rows for input and output gradient.
\<close>

theorem C1_guard_passes_before_forward_witness:
  "init refuses bare_Module draw0 mem0 3 (1 / 100000) (1 / 10) True = Inr layer3
   \<and> fst (backward layer3 batch23 batch23 1) \<noteq>
         Inl (RuntimeError ''you have to call updateOutput() at least once before backward()'')
   \<and> \<not> isl (fst (backward layer3 batch23 batch23 1))
   \<and> \<not> isl (fst (updateGradInput layer3 batch23 batch23))
   \<and> \<not> isl (fst (accGradParameters layer3 batch23 batch23 1))"
  using C1_guard_passes_before_forward [OF init_layer3, of batch23 batch23 1]
    init_layer3 check_layer3_batch23
  by (simp add: isContiguous_def batch23_def)


text \<open>
  C2 (does not hold of the code). The claim: a wrong rank or a wrong feature count makes
  forward and every backward entry point raise, with a message that names the actual and
  the expected size. They do raise, before anything is assigned. But the message for a
  wrong feature count is built with \<^verbatim>\<open>'got %d-feature tensor, expected %d'.format(...)\<close>:
  the template has no \<^verbatim>\<open>{}\<close> field, so \<^verbatim>\<open>format\<close> returns it as it stands and the
  message is the same text for every actual and every expected count.
\<close>

theorem C2_feature_mismatch_message:
  assumes "dim_t x = 2" and "size_t x 1 \<noteq> nElement (running_mean self)"
  shows "p_checkInputDim self x = Inl (RuntimeError ''got %d-feature tensor, expected %d'')
       \<and> updateOutput self x =
             (Inl (RuntimeError ''got %d-feature tensor, expected %d''), self)
       \<and> backward self x g s =
             (Inl (RuntimeError ''got %d-feature tensor, expected %d''), self)
       \<and> updateGradInput self x g =
             (Inl (RuntimeError ''got %d-feature tensor, expected %d''), self)
       \<and> accGradParameters self x g s =
             (Inl (RuntimeError ''got %d-feature tensor, expected %d''), self)"
  using p_checkInputDim_features[OF assms]
  by (simp add: updateOutput_def backward_def updateGradInput_def accGradParameters_def
        p_backward_check_input)

text \<open>
  At a concrete call: five features given to the layer of three. Neither number is in
  the message.
\<close>

theorem C2_feature_mismatch_message_witness:
  "dim_t batch45 = 2 \<and> size_t batch45 1 = 5 \<and> nElement (running_mean layer3) = 3
   \<and> updateOutput layer3 batch45 =
         (Inl (RuntimeError ''got %d-feature tensor, expected %d''), layer3)
   \<and> backward layer3 batch45 batch45 1 =
         (Inl (RuntimeError ''got %d-feature tensor, expected %d''), layer3)"
  using C2_feature_mismatch_message [of batch45 layer3 batch45 1] layer3_features
  by (simp add: dim_t_def size_t_def batch45_def)

text \<open>
  C3 (does not hold of the code). The claim: loading a layer of a format version below 2
  that carries \<^verbatim>\<open>running_std\<close> sets \<^verbatim>\<open>running_var = running_std^(-2) - eps\<close>,
  removes \<^verbatim>\<open>running_std\<close> and completes without error. The conversion is done, but the
  next line assigns the unbound name \<^verbatim>\<open>nil\<close>: the load ends in \<^verbatim>\<open>NameError\<close> and
  \<^verbatim>\<open>running_std\<close> is still there.
\<close>

theorem C3_read_raises_NameError:
  assumes "Module_read self self file = (Inr (), self1)"
      and "version < 2"
      and "running_std self1 = Attr (Some rs)"
  shows "read Module_read self file version =
           (Inl (NameError ''nil''),
            self1\<lparr>running_var := add_t (pow_t rs (- 2)) (- eps self1)\<rparr>)
       \<and> running_std (snd (read Module_read self file version)) = Attr (Some rs)
       \<and> elems (running_var (snd (read Module_read self file version))) =
             map (\<lambda>x. x powi (- 2) - eps self1) (elems rs)"
  using assms
  by (simp add: read_def getattr_def Let_def add_t_def pow_t_def)

text \<open>At a concrete load: version 1, \<^verbatim>\<open>running_std\<close> = (1/2, 1/2, 1/2), eps = 1e-5.\<close>

theorem C3_read_raises_NameError_witness:
  "old_read layer3 layer3 () = (Inr (), layer3\<lparr>running_std := Attr (Some vec3)\<rparr>)
   \<and> (1 :: int) < 2
   \<and> fst (read old_read layer3 () 1) = Inl (NameError ''nil'')
   \<and> running_std (snd (read old_read layer3 () 1)) = Attr (Some vec3)
   \<and> elems (running_var (snd (read old_read layer3 () 1))) =
         [399999 / 100000, 399999 / 100000, 399999 / 100000]"
  using C3_read_raises_NameError
          [of old_read layer3 "()" "layer3\<lparr>running_std := Attr (Some vec3)\<rparr>" 1 vec3]
  by (simp add: old_read_def eps_layer3 vec3_def power_int_minus add_t_def pow_t_def
        power2_eq_square)

text \<open>
  C9. A scale of 0 passed to \<^verbatim>\<open>backward\<close> or \<^verbatim>\<open>accGradParameters\<close> is treated as a
  scale of 1 (\<^verbatim>\<open>scale = scale or 1\<close>). For valid arguments (both shape checks pass, the
  cache attributes exist, the contiguity buffers gave \<open>x1\<close> and \<open>g1\<close>) each of the two
  is one call of the backward kernel, on the layer's gradient buffers, and the scale the
  kernel receives is 1 when the caller passed 0 and the caller's scale otherwise: it is
  never 0. So a call with the scale 0 and a call with the scale 1 give the same result
  and leave the same layer, whatever the kernel is.
\<close>

theorem C9_zero_scale_is_one:
  "backward self x g 0 = backward self x g 1
   \<and> accGradParameters self x g 0 = accGradParameters self x g 1
   \<and> (\<forall>sm ss x1 g1 self1.
         p_checkInputDim self x = Inr () \<and> p_checkInputDim self g = Inr ()
         \<and> save_mean self = Attr sm \<and> save_std self = Attr ss
         \<and> p_makeContiguous self x (Some g) = (Inr (x1, Some g1), self1) \<longrightarrow>
         backward self x g s =
           (case BatchNormalization_backward (p_backend self) (library_state (p_backend self))
                   x1 g1 (Some (resizeAs (gradInput self) g1)) (gradWeight self) (gradBias self)
                   (weight self) (running_mean self) (running_var self) sm ss
                   (train self) (if s = 0 then 1 else s) (eps self) of
              (gi', gw', gb') \<Rightarrow>
                (Inr gi',
                 self1\<lparr>gradInput := gi',
                       gradWeight := (case gradWeight self of
                                        None \<Rightarrow> gradWeight self | Some t \<Rightarrow> Some gw'),
                       gradBias := (case gradBias self of
                                      None \<Rightarrow> gradBias self | Some t \<Rightarrow> Some gb')\<rparr>))
         \<and> accGradParameters self x g s =
           (case BatchNormalization_backward (p_backend self) (library_state (p_backend self))
                   x1 g1 None (gradWeight self) (gradBias self)
                   (weight self) (running_mean self) (running_var self) sm ss
                   (train self) (if s = 0 then 1 else s) (eps self) of
              (gi', gw', gb') \<Rightarrow>
                (Inr (gradInput self),
                 self1\<lparr>gradInput := gradInput self,
                       gradWeight := (case gradWeight self of
                                        None \<Rightarrow> gradWeight self | Some t \<Rightarrow> Some gw'),
                       gradBias := (case gradBias self of
                                      None \<Rightarrow> gradBias self | Some t \<Rightarrow> Some gb')\<rparr>)))"
proof -
  have a: "(if (0::real) = 0 then 1 else 0) = 1" by simp
  have b: "(if (1::real) = 0 then 1 else 1) = 1" by simp
  have eq: "backward self x g 0 = backward self x g 1
     \<and> accGradParameters self x g 0 = accGradParameters self x g 1"
    unfolding backward_def accGradParameters_def p_backward_def a b
    by (rule conjI; rule refl)
  have k: "\<And>sm ss x1 g1 self1.
         p_checkInputDim self x = Inr () \<Longrightarrow> p_checkInputDim self g = Inr () \<Longrightarrow>
         save_mean self = Attr sm \<Longrightarrow> save_std self = Attr ss \<Longrightarrow>
         p_makeContiguous self x (Some g) = (Inr (x1, Some g1), self1) \<Longrightarrow>
         backward self x g s =
           (case BatchNormalization_backward (p_backend self) (library_state (p_backend self))
                   x1 g1 (Some (resizeAs (gradInput self) g1)) (gradWeight self) (gradBias self)
                   (weight self) (running_mean self) (running_var self) sm ss
                   (train self) (if s = 0 then 1 else s) (eps self) of
              (gi', gw', gb') \<Rightarrow>
                (Inr gi',
                 self1\<lparr>gradInput := gi',
                       gradWeight := (case gradWeight self of
                                        None \<Rightarrow> gradWeight self | Some t \<Rightarrow> Some gw'),
                       gradBias := (case gradBias self of
                                      None \<Rightarrow> gradBias self | Some t \<Rightarrow> Some gb')\<rparr>))
         \<and> accGradParameters self x g s =
           (case BatchNormalization_backward (p_backend self) (library_state (p_backend self))
                   x1 g1 None (gradWeight self) (gradBias self)
                   (weight self) (running_mean self) (running_var self) sm ss
                   (train self) (if s = 0 then 1 else s) (eps self) of
              (gi', gw', gb') \<Rightarrow>
                (Inr (gradInput self),
                 self1\<lparr>gradInput := gradInput self,
                       gradWeight := (case gradWeight self of
                                        None \<Rightarrow> gradWeight self | Some t \<Rightarrow> Some gw'),
                       gradBias := (case gradBias self of
                                      None \<Rightarrow> gradBias self | Some t \<Rightarrow> Some gb')\<rparr>))"
  proof -
    fix sm ss x1 g1 self1
    assume c: "p_checkInputDim self x = Inr ()" "p_checkInputDim self g = Inr ()"
      "save_mean self = Attr sm" "save_std self = Attr ss"
      "p_makeContiguous self x (Some g) = (Inr (x1, Some g1), self1)"
    show "backward self x g s =
           (case BatchNormalization_backward (p_backend self) (library_state (p_backend self))
                   x1 g1 (Some (resizeAs (gradInput self) g1)) (gradWeight self) (gradBias self)
                   (weight self) (running_mean self) (running_var self) sm ss
                   (train self) (if s = 0 then 1 else s) (eps self) of
              (gi', gw', gb') \<Rightarrow>
                (Inr gi',
                 self1\<lparr>gradInput := gi',
                       gradWeight := (case gradWeight self of
                                        None \<Rightarrow> gradWeight self | Some t \<Rightarrow> Some gw'),
                       gradBias := (case gradBias self of
                                      None \<Rightarrow> gradBias self | Some t \<Rightarrow> Some gb')\<rparr>))
         \<and> accGradParameters self x g s =
           (case BatchNormalization_backward (p_backend self) (library_state (p_backend self))
                   x1 g1 None (gradWeight self) (gradBias self)
                   (weight self) (running_mean self) (running_var self) sm ss
                   (train self) (if s = 0 then 1 else s) (eps self) of
              (gi', gw', gb') \<Rightarrow>
                (Inr (gradInput self),
                 self1\<lparr>gradInput := gradInput self,
                       gradWeight := (case gradWeight self of
                                        None \<Rightarrow> gradWeight self | Some t \<Rightarrow> Some gw'),
                       gradBias := (case gradBias self of
                                      None \<Rightarrow> gradBias self | Some t \<Rightarrow> Some gb')\<rparr>))"
      unfolding backward_def accGradParameters_def
      by (simp add: p_backward_kernel[OF c] split del: if_split)
  qed
  from eq k show ?thesis by blast
qed

text \<open>
  At concrete calls with the scale 0 on the layer of three features: the stand-in kernel
  writes the scale it was given into every buffer it was given, and what it wrote is 1.
\<close>

theorem C9_zero_scale_is_one_witness:
  "p_checkInputDim layer3 batch23 = Inr ()
   \<and> save_mean layer3 = Attr None \<and> save_std layer3 = Attr None
   \<and> p_makeContiguous layer3 batch23 (Some batch23) = (Inr (batch23, Some batch23), layer3)
   \<and> backward layer3 batch23 batch23 0 =
        (Inr \<lparr>sizes = [2, 3], elems = [1, 1, 1, 1, 1, 1], contiguous = True\<rparr>,
         layer3\<lparr>gradInput :=
                   \<lparr>sizes = [2, 3], elems = [1, 1, 1, 1, 1, 1], contiguous = True\<rparr>,
                 gradWeight := Some \<lparr>sizes = [3], elems = [1, 1, 1], contiguous = True\<rparr>,
                 gradBias := Some \<lparr>sizes = [3], elems = [1, 1, 1], contiguous = True\<rparr>\<rparr>)
   \<and> accGradParameters layer3 batch23 batch23 0 =
        (Inr empty_tensor,
         layer3\<lparr>gradWeight := Some \<lparr>sizes = [3], elems = [1, 1, 1], contiguous = True\<rparr>,
                 gradBias := Some \<lparr>sizes = [3], elems = [1, 1, 1], contiguous = True\<rparr>\<rparr>)"
proof -
  note c = check_layer3_batch23 layer3_cache buffers_layer3_batch23
  have "backward layer3 batch23 batch23 0 =
           (case BatchNormalization_backward (p_backend layer3)
                   (library_state (p_backend layer3))
                   batch23 batch23 (Some (resizeAs (gradInput layer3) batch23))
                   (gradWeight layer3) (gradBias layer3)
                   (weight layer3) (running_mean layer3) (running_var layer3) None None
                   (train layer3) (if (0::real) = 0 then 1 else 0) (eps layer3) of
              (gi', gw', gb') \<Rightarrow>
                (Inr gi',
                 layer3\<lparr>gradInput := gi',
                       gradWeight := (case gradWeight layer3 of
                                        None \<Rightarrow> gradWeight layer3 | Some t \<Rightarrow> Some gw'),
                       gradBias := (case gradBias layer3 of
                                      None \<Rightarrow> gradBias layer3 | Some t \<Rightarrow> Some gb')\<rparr>))
         \<and> accGradParameters layer3 batch23 batch23 0 =
           (case BatchNormalization_backward (p_backend layer3)
                   (library_state (p_backend layer3))
                   batch23 batch23 None (gradWeight layer3) (gradBias layer3)
                   (weight layer3) (running_mean layer3) (running_var layer3) None None
                   (train layer3) (if (0::real) = 0 then 1 else 0) (eps layer3) of
              (gi', gw', gb') \<Rightarrow>
                (Inr (gradInput layer3),
                 layer3\<lparr>gradInput := gradInput layer3,
                       gradWeight := (case gradWeight layer3 of
                                        None \<Rightarrow> gradWeight layer3 | Some t \<Rightarrow> Some gw'),
                       gradBias := (case gradBias layer3 of
                                      None \<Rightarrow> gradBias layer3 | Some t \<Rightarrow> Some gb')\<rparr>))"
    using C9_zero_scale_is_one [of layer3 batch23 batch23 0] c
    by blast
  then show ?thesis
    using c
    by (simp add: layer3_eq stub_backend_def fill_def or_else_def resizeAs_def batch23_def
          nElement_def empty_tensor_def replicate6)
qed

text \<open>
  C5. Validation precedes mutation. When the shape check of the input fails, forward and
  the three backward entry points return that error and the layer exactly as it was; the
  same holds for the backward entry points when the check of the output gradient fails.
  And whenever one of the four operations raises at all, the running statistics, the
  forward cache, the affine parameters and the gradient accumulators are what they were.
  The layer is any object that has the attribute \<^verbatim>\<open>save_std\<close>, as every layer the
  constructor returns has (\<open>init_cache\<close>) and keeps (\<open>updateOutput_keeps_cache_attributes\<close>,
  \<open>p_backward_keeps_cache\<close>). When the layer also has \<^verbatim>\<open>save_mean\<close> and has both
  contiguity buffers or neither, a raise leaves the whole object as it was.
\<close>

theorem C5_raise_precedes_mutation:
  assumes "hasattr (save_std self)"
  shows "(\<forall>e. p_checkInputDim self x = Inl e \<longrightarrow>
            updateOutput self x = (Inl e, self)
            \<and> backward self x g s = (Inl e, self)
            \<and> updateGradInput self x g = (Inl e, self)
            \<and> accGradParameters self x g s = (Inl e, self))
       \<and> (\<forall>e. p_checkInputDim self x = Inr () \<and> p_checkInputDim self g = Inl e \<longrightarrow>
            backward self x g s = (Inl e, self)
            \<and> updateGradInput self x g = (Inl e, self)
            \<and> accGradParameters self x g s = (Inl e, self))
       \<and> (isl (fst (updateOutput self x)) \<longrightarrow>
            same_parameters self (snd (updateOutput self x)))
       \<and> (isl (fst (backward self x g s)) \<longrightarrow>
            same_parameters self (snd (backward self x g s)))
       \<and> (isl (fst (updateGradInput self x g)) \<longrightarrow>
            same_parameters self (snd (updateGradInput self x g)))
       \<and> (isl (fst (accGradParameters self x g s)) \<longrightarrow>
            same_parameters self (snd (accGradParameters self x g s)))
       \<and> (hasattr (save_mean self) \<and> hasattr (p_input self) = hasattr (p_gradOutput self)
              \<longrightarrow>
            (isl (fst (updateOutput self x)) \<longrightarrow> snd (updateOutput self x) = self)
            \<and> (isl (fst (backward self x g s)) \<longrightarrow> snd (backward self x g s) = self)
            \<and> (isl (fst (updateGradInput self x g)) \<longrightarrow>
                   snd (updateGradInput self x g) = self)
            \<and> (isl (fst (accGradParameters self x g s)) \<longrightarrow>
                   snd (accGradParameters self x g s) = self))"
proof -
  have v1: "\<forall>e. p_checkInputDim self x = Inl e \<longrightarrow>
            updateOutput self x = (Inl e, self)
            \<and> backward self x g s = (Inl e, self)
            \<and> updateGradInput self x g = (Inl e, self)
            \<and> accGradParameters self x g s = (Inl e, self)"
    by (simp add: updateOutput_check backward_def updateGradInput_def accGradParameters_def
          p_backward_check_input)
  have v2: "\<forall>e. p_checkInputDim self x = Inr () \<and> p_checkInputDim self g = Inl e \<longrightarrow>
            backward self x g s = (Inl e, self)
            \<and> updateGradInput self x g = (Inl e, self)
            \<and> accGradParameters self x g s = (Inl e, self)"
    by (simp add: backward_def updateGradInput_def accGradParameters_def
          p_backward_check_gradOutput)
  have fwd: "isl (fst (updateOutput self x)) \<longrightarrow>
            same_parameters self (snd (updateOutput self x))"
  proof
    assume "isl (fst (updateOutput self x))"
    then obtain e where "fst (updateOutput self x) = Inl e"
      by (cases "fst (updateOutput self x)") auto
    from same_parameters_output[OF updateOutput_error_frame[OF assms this]]
    show "same_parameters self (snd (updateOutput self x))" .
  qed
  have bwd: "\<And>sc gi gw gb. isl (fst (p_backward self x g sc gi gw gb)) \<longrightarrow>
            same_parameters self (snd (p_backward self x g sc gi gw gb))"
  proof
    fix sc gi gw gb
    assume "isl (fst (p_backward self x g sc gi gw gb))"
    then obtain e where "fst (p_backward self x g sc gi gw gb) = Inl e"
      by (cases "fst (p_backward self x g sc gi gw gb)") auto
    from same_parameters_buffers[OF p_backward_error_frame[OF this]]
    show "same_parameters self (snd (p_backward self x g sc gi gw gb))" .
  qed
  have fwd': "hasattr (save_mean self) \<longrightarrow>
            (isl (fst (updateOutput self x)) \<longrightarrow> snd (updateOutput self x) = self)"
  proof (intro impI)
    assume m: "hasattr (save_mean self)" and "isl (fst (updateOutput self x))"
    then obtain e where "fst (updateOutput self x) = Inl e"
      by (cases "fst (updateOutput self x)") auto
    from updateOutput_error_unchanged[OF m assms this]
    show "snd (updateOutput self x) = self" .
  qed
  have bwd': "\<And>sc gi gw gb. hasattr (p_input self) = hasattr (p_gradOutput self) \<longrightarrow>
            (isl (fst (p_backward self x g sc gi gw gb)) \<longrightarrow>
             snd (p_backward self x g sc gi gw gb) = self)"
  proof (intro impI)
    fix sc gi gw gb
    assume b: "hasattr (p_input self) = hasattr (p_gradOutput self)"
      and "isl (fst (p_backward self x g sc gi gw gb))"
    then obtain e where "fst (p_backward self x g sc gi gw gb) = Inl e"
      by (cases "fst (p_backward self x g sc gi gw gb)") auto
    from p_backward_error_unchanged[OF b this]
    show "snd (p_backward self x g sc gi gw gb) = self" .
  qed
  have part: "(isl (fst (updateOutput self x)) \<longrightarrow>
            same_parameters self (snd (updateOutput self x)))
       \<and> (isl (fst (backward self x g s)) \<longrightarrow>
            same_parameters self (snd (backward self x g s)))
       \<and> (isl (fst (updateGradInput self x g)) \<longrightarrow>
            same_parameters self (snd (updateGradInput self x g)))
       \<and> (isl (fst (accGradParameters self x g s)) \<longrightarrow>
            same_parameters self (snd (accGradParameters self x g s)))"
    using fwd bwd[of s "Some (gradInput self)" "gradWeight self" "gradBias self"]
      bwd[of 1 "Some (gradInput self)" None None]
      bwd[of s None "gradWeight self" "gradBias self"]
    unfolding backward_def updateGradInput_def accGradParameters_def
    by blast
  have whole: "hasattr (save_mean self) \<and> hasattr (p_input self) = hasattr (p_gradOutput self)
              \<longrightarrow>
            (isl (fst (updateOutput self x)) \<longrightarrow> snd (updateOutput self x) = self)
            \<and> (isl (fst (backward self x g s)) \<longrightarrow> snd (backward self x g s) = self)
            \<and> (isl (fst (updateGradInput self x g)) \<longrightarrow>
                   snd (updateGradInput self x g) = self)
            \<and> (isl (fst (accGradParameters self x g s)) \<longrightarrow>
                   snd (accGradParameters self x g s) = self)"
    using fwd' bwd'[of s "Some (gradInput self)" "gradWeight self" "gradBias self"]
      bwd'[of 1 "Some (gradInput self)" None None]
      bwd'[of s None "gradWeight self" "gradBias self"]
    unfolding backward_def updateGradInput_def accGradParameters_def
    by blast
  from v1 v2 part whole show ?thesis by (intro conjI) blast+
qed

text \<open>
  At concrete calls on the fresh layer of three features: a vector for the input, a vector
  for the output gradient, and an input that is not contiguous (which raises, the object
  having no \<^verbatim>\<open>_input\<close> attribute).
\<close>

theorem C5_raise_precedes_mutation_witness:
  "hasattr (save_std layer3)
   \<and> updateOutput layer3 vec3 =
        (Inl (RuntimeError ''only mini-batch supported (2D tensor), got 1D tensor instead''),
         layer3)
   \<and> backward layer3 vec3 batch23 1 =
        (Inl (RuntimeError ''only mini-batch supported (2D tensor), got 1D tensor instead''),
         layer3)
   \<and> accGradParameters layer3 batch23 vec3 1 =
        (Inl (RuntimeError ''only mini-batch supported (2D tensor), got 1D tensor instead''),
         layer3)
   \<and> isl (fst (updateGradInput layer3 strided23 batch23))
   \<and> gradWeight (snd (updateGradInput layer3 strided23 batch23)) = gradWeight layer3
   \<and> save_mean (snd (updateGradInput layer3 strided23 batch23)) = save_mean layer3
   \<and> hasattr (save_mean layer3)
   \<and> hasattr (p_input layer3) = hasattr (p_gradOutput layer3)
   \<and> snd (updateGradInput layer3 strided23 batch23) = layer3"
proof -
  have h: "hasattr (save_std layer3)" by (simp add: layer3_cache hasattr_def)
  have h': "hasattr (save_mean layer3)"
    "hasattr (p_input layer3) = hasattr (p_gradOutput layer3)"
    by (simp_all add: layer3_eq hasattr_def)
  have e: "isl (fst (updateGradInput layer3 strided23 batch23))"
    using check_layer3_strided23 check_layer3_batch23
    by (simp add: updateGradInput_def p_backward_def p_makeContiguous_def layer3_cache
          hasattr_def getattr_def isContiguous_def strided23_def layer3_eq)
  show ?thesis
    using C5_raise_precedes_mutation [OF h, of vec3 batch23 1]
      C5_raise_precedes_mutation [OF h, of batch23 vec3 1]
      C5_raise_precedes_mutation [OF h, of strided23 batch23 1]
      h h' e check_layer3_vec3 check_layer3_batch23
    by simp
qed

text \<open>
  C6. \<^verbatim>\<open>clearState\<close> drops the forward cache (\<^verbatim>\<open>save_mean\<close>, \<^verbatim>\<open>save_std\<close>) and the
  contiguity buffers (\<^verbatim>\<open>_input\<close>, \<^verbatim>\<open>_gradOutput\<close>): none of them holds a tensor
  afterwards. The running statistics, the affine parameters and the gradient accumulators
  stay as they are. \<open>B\<close> is the base class's \<^verbatim>\<open>clearState\<close>, any function that leaves
  these attributes of the layer alone.
\<close>

theorem C6_clearState:
  assumes "\<forall>s. same_parameters s (B s) \<and> p_input (B s) = p_input s
                \<and> p_gradOutput (B s) = p_gradOutput s"
  shows "save_mean (clearState B self) = drop_attr (save_mean self)
       \<and> save_std (clearState B self) = drop_attr (save_std self)
       \<and> p_input (clearState B self) = drop_attr (p_input self)
       \<and> p_gradOutput (clearState B self) = drop_attr (p_gradOutput self)
       \<and> (\<forall>t. save_mean (clearState B self) \<noteq> Attr (Some t)
              \<and> save_std (clearState B self) \<noteq> Attr (Some t)
              \<and> p_input (clearState B self) \<noteq> Attr (Some t)
              \<and> p_gradOutput (clearState B self) \<noteq> Attr (Some t))
       \<and> running_mean (clearState B self) = running_mean self
       \<and> running_var (clearState B self) = running_var self
       \<and> weight (clearState B self) = weight self
       \<and> bias (clearState B self) = bias self
       \<and> gradWeight (clearState B self) = gradWeight self
       \<and> gradBias (clearState B self) = gradBias self"
proof -
  define s1 where "s1 = clear self
          [''buffer'', ''buffer2'', ''centered'', ''std'', ''normalized'',
           ''_input'', ''_gradOutput'', ''save_mean'', ''save_std'']"
  have c: "save_mean s1 = drop_attr (save_mean self)" "save_std s1 = drop_attr (save_std self)"
    "p_input s1 = drop_attr (p_input self)" "p_gradOutput s1 = drop_attr (p_gradOutput self)"
    "running_mean s1 = running_mean self" "running_var s1 = running_var self"
    "weight s1 = weight self" "bias s1 = bias self"
    "gradWeight s1 = gradWeight self" "gradBias s1 = gradBias self"
    by (simp_all add: s1_def clear1_def)
  have d: "\<And>a t. drop_attr a \<noteq> Attr (Some t)"
    by (simp add: drop_attr_def split: attr.splits)
  have "clearState B self = B s1" by (simp add: clearState_def s1_def)
  then show ?thesis using assms c d by simp
qed

text \<open>
  At a layer with a populated cache and an input buffer, with the base class's
  \<^verbatim>\<open>clearState\<close> that clears \<^verbatim>\<open>output\<close> and \<^verbatim>\<open>gradInput\<close>.
\<close>

theorem C6_clearState_witness:
  "save_mean (clearState base_clearState
       (layer3\<lparr>save_mean := Attr (Some vec3), save_std := Attr (Some vec3),
               p_input := Attr (Some batch23)\<rparr>)) = Attr None
   \<and> save_std (clearState base_clearState
       (layer3\<lparr>save_mean := Attr (Some vec3), save_std := Attr (Some vec3),
               p_input := Attr (Some batch23)\<rparr>)) = Attr None
   \<and> p_input (clearState base_clearState
       (layer3\<lparr>save_mean := Attr (Some vec3), save_std := Attr (Some vec3),
               p_input := Attr (Some batch23)\<rparr>)) = Attr None
   \<and> p_gradOutput (clearState base_clearState
       (layer3\<lparr>save_mean := Attr (Some vec3), save_std := Attr (Some vec3),
               p_input := Attr (Some batch23)\<rparr>)) = NoAttr
   \<and> running_var (clearState base_clearState
       (layer3\<lparr>save_mean := Attr (Some vec3), save_std := Attr (Some vec3),
               p_input := Attr (Some batch23)\<rparr>)) = running_var layer3
   \<and> gradWeight (clearState base_clearState
       (layer3\<lparr>save_mean := Attr (Some vec3), save_std := Attr (Some vec3),
               p_input := Attr (Some batch23)\<rparr>)) = gradWeight layer3"
  using C6_clearState [OF base_clearState_frame,
          of "layer3\<lparr>save_mean := Attr (Some vec3), save_std := Attr (Some vec3),
                     p_input := Attr (Some batch23)\<rparr>"]
  by (simp add: drop_attr_def layer3_eq)

text \<open>
  C7. \<^verbatim>\<open>updateGradInput\<close> never changes \<^verbatim>\<open>gradWeight\<close> or \<^verbatim>\<open>gradBias\<close>, whatever
  its arguments and its outcome. For valid arguments (both shape checks pass, the cache
  attributes exist, the contiguity buffers gave \<open>x1\<close> and \<open>g1\<close>) it is one call of the
  backward kernel with the scale 1, with \<^verbatim>\<open>None\<close> for both parameter-gradient buffers
  and with the layer's \<^verbatim>\<open>gradInput\<close>, resized, as the only buffer to write.
\<close>

theorem C7_updateGradInput:
  "gradWeight (snd (updateGradInput self x g)) = gradWeight self
   \<and> gradBias (snd (updateGradInput self x g)) = gradBias self
   \<and> (\<forall>sm ss x1 g1 self1.
         p_checkInputDim self x = Inr () \<and> p_checkInputDim self g = Inr ()
         \<and> save_mean self = Attr sm \<and> save_std self = Attr ss
         \<and> p_makeContiguous self x (Some g) = (Inr (x1, Some g1), self1) \<longrightarrow>
         updateGradInput self x g =
           (case BatchNormalization_backward (p_backend self) (library_state (p_backend self))
                   x1 g1 (Some (resizeAs (gradInput self) g1)) None None
                   (weight self) (running_mean self) (running_var self) sm ss
                   (train self) 1 (eps self) of
              (gi', gw', gb') \<Rightarrow>
                (Inr gi',
                 self1\<lparr>gradInput := gi', gradWeight := gradWeight self,
                       gradBias := gradBias self\<rparr>)))"
proof -
  have k: "\<forall>sm ss x1 g1 self1.
         p_checkInputDim self x = Inr () \<and> p_checkInputDim self g = Inr ()
         \<and> save_mean self = Attr sm \<and> save_std self = Attr ss
         \<and> p_makeContiguous self x (Some g) = (Inr (x1, Some g1), self1) \<longrightarrow>
         updateGradInput self x g =
           (case BatchNormalization_backward (p_backend self) (library_state (p_backend self))
                   x1 g1 (Some (resizeAs (gradInput self) g1)) None None
                   (weight self) (running_mean self) (running_var self) sm ss
                   (train self) 1 (eps self) of
              (gi', gw', gb') \<Rightarrow>
                (Inr gi',
                 self1\<lparr>gradInput := gi', gradWeight := gradWeight self,
                       gradBias := gradBias self\<rparr>))"
  proof (intro allI impI)
    fix sm ss x1 g1 self1
    assume a: "p_checkInputDim self x = Inr () \<and> p_checkInputDim self g = Inr ()
         \<and> save_mean self = Attr sm \<and> save_std self = Attr ss
         \<and> p_makeContiguous self x (Some g) = (Inr (x1, Some g1), self1)"
    from a have c: "p_checkInputDim self x = Inr ()" "p_checkInputDim self g = Inr ()"
      "save_mean self = Attr sm" "save_std self = Attr ss"
      "p_makeContiguous self x (Some g) = (Inr (x1, Some g1), self1)" by simp_all
    show "updateGradInput self x g =
           (case BatchNormalization_backward (p_backend self) (library_state (p_backend self))
                   x1 g1 (Some (resizeAs (gradInput self) g1)) None None
                   (weight self) (running_mean self) (running_var self) sm ss
                   (train self) 1 (eps self) of
              (gi', gw', gb') \<Rightarrow>
                (Inr gi',
                 self1\<lparr>gradInput := gi', gradWeight := gradWeight self,
                       gradBias := gradBias self\<rparr>))"
      unfolding updateGradInput_def
      by (simp add: p_backward_kernel[OF c])
  qed
  show ?thesis
    using k p_backward_frame(2,3)[of None self x g 1 "Some (gradInput self)"]
    unfolding updateGradInput_def by simp
qed

text \<open>
  At a concrete call on the layer of three features: the stand-in kernel writes the scale
  it was given, 1, into the input gradient.
\<close>

theorem C7_updateGradInput_witness:
  "p_checkInputDim layer3 batch23 = Inr ()
   \<and> updateGradInput layer3 batch23 batch23 =
        (Inr \<lparr>sizes = [2, 3], elems = [1, 1, 1, 1, 1, 1], contiguous = True\<rparr>,
         layer3\<lparr>gradInput :=
                   \<lparr>sizes = [2, 3], elems = [1, 1, 1, 1, 1, 1], contiguous = True\<rparr>\<rparr>)
   \<and> gradWeight (snd (updateGradInput layer3 batch23 batch23)) = gradWeight layer3
   \<and> gradBias (snd (updateGradInput layer3 batch23 batch23)) = gradBias layer3"
proof -
  have "updateGradInput layer3 batch23 batch23 =
           (case BatchNormalization_backward (p_backend layer3)
                   (library_state (p_backend layer3))
                   batch23 batch23 (Some (resizeAs (gradInput layer3) batch23)) None None
                   (weight layer3) (running_mean layer3) (running_var layer3) None None
                   (train layer3) 1 (eps layer3) of
              (gi', gw', gb') \<Rightarrow>
                (Inr gi',
                 layer3\<lparr>gradInput := gi', gradWeight := gradWeight layer3,
                        gradBias := gradBias layer3\<rparr>))"
    using C7_updateGradInput [of layer3 batch23 batch23]
      check_layer3_batch23 layer3_cache buffers_layer3_batch23
    by blast
  then show ?thesis
    using C7_updateGradInput [of layer3 batch23 batch23] check_layer3_batch23
    by (simp add: layer3_eq stub_backend_def fill_def or_else_def resizeAs_def batch23_def
          nElement_def empty_tensor_def replicate6)
qed

text \<open>
  C8. \<^verbatim>\<open>reset\<close> sets every element of \<^verbatim>\<open>running_mean\<close> to 0 and every element of
  \<^verbatim>\<open>running_var\<close> to 1, keeping their shapes. On an affine layer it overwrites every
  element of the scale with a draw of the tensor library's \<^verbatim>\<open>uniform()\<close> and sets every
  element of the shift to 0; on a layer that is not affine it leaves both parameters
  alone. The gradient accumulators are never touched. A layer is affine exactly when it
  has a scale and a shift, as the constructor arranges.
\<close>

theorem C8_reset:
  assumes "affine self = (weight self \<noteq> None)" and "affine self = (bias self \<noteq> None)"
  shows "sizes (running_mean (reset draw self)) = sizes (running_mean self)
       \<and> elems (running_mean (reset draw self)) = replicate (length (elems (running_mean self))) 0
       \<and> sizes (running_var (reset draw self)) = sizes (running_var self)
       \<and> elems (running_var (reset draw self)) = replicate (length (elems (running_var self))) 1
       \<and> (affine self \<longrightarrow>
            (\<exists>w b. weight self = Some w \<and> bias self = Some b
               \<and> weight (reset draw self) = Some (uniform draw w)
               \<and> elems (uniform draw w) = map draw [0..<length (elems w)]
               \<and> sizes (uniform draw w) = sizes w
               \<and> bias (reset draw self) = Some (zero_t b)
               \<and> elems (zero_t b) = replicate (length (elems b)) 0
               \<and> sizes (zero_t b) = sizes b))
       \<and> (\<not> affine self \<longrightarrow>
            weight (reset draw self) = weight self \<and> bias (reset draw self) = bias self)
       \<and> gradWeight (reset draw self) = gradWeight self
       \<and> gradBias (reset draw self) = gradBias self"
  using assms
  by (auto simp: reset_def Let_def zero_t_def fill_def uniform_def map_replicate_const
           split: option.splits)

text \<open>At the layer of three features, after its running statistics moved.\<close>

theorem C8_reset_witness:
  "affine layer3 \<and> weight layer3 \<noteq> None \<and> bias layer3 \<noteq> None
   \<and> elems (running_mean (reset draw0 (layer3\<lparr>running_mean := vec3, running_var := vec3\<rparr>)))
       = [0, 0, 0]
   \<and> elems (running_var (reset draw0 (layer3\<lparr>running_mean := vec3, running_var := vec3\<rparr>)))
       = [1, 1, 1]
   \<and> bias (reset draw0 (layer3\<lparr>running_mean := vec3, running_var := vec3\<rparr>))
       = Some \<lparr>sizes = [3], elems = [0, 0, 0], contiguous = True\<rparr>
   \<and> gradWeight (reset draw0 (layer3\<lparr>running_mean := vec3, running_var := vec3\<rparr>))
       = gradWeight layer3"
  using C8_reset [of "layer3\<lparr>running_mean := vec3, running_var := vec3\<rparr>" draw0]
  by (simp add: layer3_eq vec3_def zero_t_def numeral_3_eq_3)

text \<open>
  C10. Every backward entry point that returns, returns the layer's \<^verbatim>\<open>gradInput\<close> as
  it is after the call. \<^verbatim>\<open>accGradParameters\<close> passes no input-gradient buffer to the
  kernel: what it returns is the \<^verbatim>\<open>gradInput\<close> the layer had before the call,
  unchanged.
\<close>

theorem C10_returns_gradInput:
  "(\<forall>r. fst (backward self x g s) = Inr r \<longrightarrow>
        r = gradInput (snd (backward self x g s)))
   \<and> (\<forall>r. fst (updateGradInput self x g) = Inr r \<longrightarrow>
        r = gradInput (snd (updateGradInput self x g)))
   \<and> (\<forall>r. fst (accGradParameters self x g s) = Inr r \<longrightarrow>
        r = gradInput (snd (accGradParameters self x g s)) \<and> r = gradInput self)
   \<and> gradInput (snd (accGradParameters self x g s)) = gradInput self"
  using p_backward_returns_gradInput[of self x g s "Some (gradInput self)" "gradWeight self"
          "gradBias self"]
    p_backward_returns_gradInput[of self x g 1 "Some (gradInput self)" None None]
    p_backward_returns_gradInput[of self x g s None "gradWeight self" "gradBias self"]
    p_backward_frame(1)[of None self x g s "gradWeight self" "gradBias self"]
  unfolding backward_def updateGradInput_def accGradParameters_def
  by simp

text \<open>
  At concrete calls with the scale 3: \<^verbatim>\<open>accGradParameters\<close> returns the (empty)
  \<^verbatim>\<open>gradInput\<close> of the fresh layer, \<^verbatim>\<open>backward\<close> the one the kernel wrote.
\<close>

theorem C10_returns_gradInput_witness:
  "fst (accGradParameters layer3 batch23 batch23 3) = Inr (gradInput layer3)
   \<and> gradInput (snd (accGradParameters layer3 batch23 batch23 3)) = empty_tensor
   \<and> fst (backward layer3 batch23 batch23 3) =
        Inr \<lparr>sizes = [2, 3], elems = [3, 3, 3, 3, 3, 3], contiguous = True\<rparr>
   \<and> gradInput (snd (backward layer3 batch23 batch23 3)) =
        \<lparr>sizes = [2, 3], elems = [3, 3, 3, 3, 3, 3], contiguous = True\<rparr>"
proof -
  have a: "fst (accGradParameters layer3 batch23 batch23 3) = Inr empty_tensor"
    unfolding accGradParameters_def
    by (simp add: p_backward_kernel[OF check_layer3_batch23 check_layer3_batch23
            layer3_cache buffers_layer3_batch23] split: prod.splits)
       (simp add: layer3_eq)
  have b: "fst (backward layer3 batch23 batch23 3) =
        Inr \<lparr>sizes = [2, 3], elems = [3, 3, 3, 3, 3, 3], contiguous = True\<rparr>"
    unfolding backward_def
    by (simp add: p_backward_kernel[OF check_layer3_batch23 check_layer3_batch23
            layer3_cache buffers_layer3_batch23])
       (simp add: layer3_eq stub_backend_def fill_def or_else_def resizeAs_def batch23_def
          nElement_def empty_tensor_def replicate6)
  show ?thesis
    using C10_returns_gradInput [of layer3 batch23 batch23 3] a b
    by (simp add: layer3_eq)
qed

end
